theory Spec2Isabelle
  imports Complex_Main "HOL-Library.AList"
begin

section \<open>JavaScript values used by the frontend panels\<close>

text \<open>
  The panels exchange parsed JSON and YAML documents. A document is a tree of type \<open>json\<close>;
  JavaScript's \<open>undefined\<close> is \<open>None\<close> of \<open>json option\<close>. Numbers are the finite
  JavaScript numbers, taken as rationals (every finite double is one); \<open>NaN\<close> and the
  infinities cannot occur in a parsed JSON document and are not modelled. An object is an
  association list in insertion order in which the first binding of a key is the property
  (\<open>map_of\<close>); \<open>AList.update\<close> is the assignment \<open>o[k] = v\<close>: it replaces the value in
  place or appends the key.
\<close>

datatype json =
    JNull
  | JBool bool
  | JNum rat
  | JStr string
  | JArr "json list"
  | JObj "(string \<times> json) list"

text \<open>Truthiness of a value, as used by \<open>||\<close>, \<open>&&\<close> and \<open>!\<close>.\<close>

fun truthy :: "json option \<Rightarrow> bool" where
  "truthy None = False"
| "truthy (Some JNull) = False"
| "truthy (Some (JBool b)) = b"
| "truthy (Some (JNum n)) = (n \<noteq> 0)"
| "truthy (Some (JStr s)) = (s \<noteq> [])"
| "truthy (Some (JArr xs)) = True"
| "truthy (Some (JObj kvs)) = True"

text \<open>\<open>a || d\<close> for a default \<open>d\<close> that is a value.\<close>

definition or_default :: "json option \<Rightarrow> json \<Rightarrow> json" where
  "or_default a d = (case a of None \<Rightarrow> d | Some x \<Rightarrow> if truthy a then x else d)"

text \<open>\<open>typeof x === 'object'\<close> (true of \<open>null\<close>, of arrays and of objects).\<close>

fun typeof_object :: "json option \<Rightarrow> bool" where
  "typeof_object (Some JNull) = True"
| "typeof_object (Some (JArr xs)) = True"
| "typeof_object (Some (JObj kvs)) = True"
| "typeof_object _ = False"

text \<open>
  The property read \<open>x.k\<close> on a value that is neither \<open>null\<close> nor \<open>undefined\<close>, for a key
  \<open>k\<close> that is not a built-in property of strings and arrays (none of the keys read by the
  panels is one). On \<open>null\<close> and \<open>undefined\<close> the read throws; the callers below model that
  case themselves.
\<close>

fun get_prop :: "json option \<Rightarrow> string \<Rightarrow> json option" where
  "get_prop (Some (JObj kvs)) k = map_of kvs k"
| "get_prop _ k = None"

text \<open>Decimal rendering of an array index, the property key of an element.\<close>

fun index_key :: "nat \<Rightarrow> string" where
  "index_key n =
     (if n < 10 then [char_of (48 + n)]
      else index_key (n div 10) @ [char_of (48 + n mod 10)])"

declare index_key.simps [simp del]

text \<open>
  The own enumerable properties of a value: what \<open>Object.entries\<close> lists and what the spread
  \<open>{...x}\<close> copies. \<open>null\<close>, \<open>undefined\<close>, numbers and booleans have none; a string has its
  characters and an array its elements under their indices. Entries come in the model's
  insertion order.
\<close>

fun own_entries :: "json option \<Rightarrow> (string \<times> json) list" where
  "own_entries (Some (JObj kvs)) = AList.clearjunk kvs"
| "own_entries (Some (JArr xs)) = zip (map index_key [0..<length xs]) xs"
| "own_entries (Some (JStr s)) = zip (map index_key [0..<length s]) (map (\<lambda>c. JStr [c]) s)"
| "own_entries _ = []"

text \<open>The object literal \<open>{ k1: v1, ..., kn: vn, ...x }\<close>: the listed properties, then the spread.\<close>

definition spread :: "(string \<times> json) list \<Rightarrow> json option \<Rightarrow> (string \<times> json) list" where
  "spread props x = fold (\<lambda>(k, v). AList.update k v) (own_entries x) props"

subsection \<open>Strings\<close>

text \<open>
  \<open>toUpperCase\<close> and \<open>toLowerCase\<close> on the ASCII letters; every other character is left as
  it is. \<open>str_includes s p\<close> is \<open>s.includes(p)\<close>.
\<close>

definition toUpperCase_char :: "char \<Rightarrow> char" where
  "toUpperCase_char c =
     (let n = (of_char c :: nat) in if 97 \<le> n \<and> n \<le> 122 then char_of (n - 32) else c)"

definition toLowerCase_char :: "char \<Rightarrow> char" where
  "toLowerCase_char c =
     (let n = (of_char c :: nat) in if 65 \<le> n \<and> n \<le> 90 then char_of (n + 32) else c)"

definition toUpperCase :: "string \<Rightarrow> string" where
  "toUpperCase s = map toUpperCase_char s"

definition toLowerCase :: "string \<Rightarrow> string" where
  "toLowerCase s = map toLowerCase_char s"

fun startsWith :: "string \<Rightarrow> string \<Rightarrow> bool" where
  "startsWith s [] = True"
| "startsWith [] (p # ps) = False"
| "startsWith (c # cs) (p # ps) = (c = p \<and> startsWith cs ps)"

fun str_includes :: "string \<Rightarrow> string \<Rightarrow> bool" where
  "str_includes [] p = (p = [])"
| "str_includes (c # cs) p = (startsWith (c # cs) p \<or> str_includes cs p)"

subsection \<open>The built-in \<open>Set\<close>\<close>

text \<open>
  A \<open>Set\<close> keeps its elements in insertion order without repetition: a list built by
  \<open>Set_add\<close>. \<open>Array.from\<close> of a set is that list.
\<close>

definition Set_add :: "'a list \<Rightarrow> 'a \<Rightarrow> 'a list" where
  "Set_add s x = (if x \<in> set s then s else s @ [x])"

definition Set_delete :: "'a list \<Rightarrow> 'a \<Rightarrow> 'a list" where
  "Set_delete s x = removeAll x s"

definition new_Set :: "'a list \<Rightarrow> 'a list" where
  "new_Set xs = foldl Set_add [] xs"

section \<open>ColorPicker\<close>

text \<open>\<open>COLOR_META\<close>: the chips of the picker, each a pair of \<open>code\<close> and \<open>name\<close>.\<close>

definition COLOR_META :: "(string \<times> string) list" where
  "COLOR_META =
     [(''W'', ''White''), (''U'', ''Blue''), (''B'', ''Black''),
      (''R'', ''Red''), (''G'', ''Green''), (''C'', ''Colorless'')]"

text \<open>The codes \<open>c.code\<close> that the chips pass to \<open>toggle\<close>.\<close>

definition color_codes :: "string list" where
  "color_codes = map fst COLOR_META"

text \<open>\<open>const selected = new Set((value || []).map((c) => c.toUpperCase()))\<close>\<close>

definition selected :: "string list \<Rightarrow> string list" where
  "selected value = new_Set (map toUpperCase value)"

text \<open>
  \<open>toggle(code)\<close>; the result is the array handed to \<open>onChange\<close>, which becomes the next
  \<open>value\<close> of the picker.
\<close>

definition toggle :: "string list \<Rightarrow> string \<Rightarrow> string list" where
  "toggle value c =
     (let next = new_Set (selected value)
      in if c \<in> set next then Set_delete next c else Set_add next c)"

section \<open>DeckAnalysis: the mana curve\<close>

















section \<open>BuilderForm: loading a configuration into the form\<close>

text \<open>
  The part of \<open>loadSelectedConfig\<close> after \<open>YAML.load\<close>: \<open>obj\<close> is the parsed document.
  The result is the form handed to \<open>setForm\<close>, or \<open>None\<close> when the guard
  \<open>obj && typeof obj === 'object'\<close> fails and the form is left as it is.
\<close>

definition deck_defaults :: "(string \<times> json) list" where
  "deck_defaults =
     [(''name'', JStr []), (''colors'', JArr []), (''size'', JNum 60),
      (''max_card_copies'', JNum 4), (''legalities'', JArr [])]"

definition loadSelectedConfig :: "json option \<Rightarrow> json option" where
  "loadSelectedConfig obj =
     (if truthy obj \<and> typeof_object obj then
        Some (JObj
          [(''deck'', JObj (spread deck_defaults (get_prop obj ''deck''))),
           (''categories'', or_default (get_prop obj ''categories'') (JObj [])),
           (''mana_base'',
              JObj (spread [(''land_count'', JNum 24)]
                     (Some (or_default (get_prop obj ''mana_base'') (JObj []))))),
           (''card_constraints'', or_default (get_prop obj ''card_constraints'') (JObj [])),
           (''priority_cards'', or_default (get_prop obj ''priority_cards'') (JArr [])),
           (''scoring_rules'', or_default (get_prop obj ''scoring_rules'') (JObj [])),
           (''fallback_strategy'', or_default (get_prop obj ''fallback_strategy'') (JObj []))])
      else None)"

text \<open>The initial form state of \<open>App\<close>.\<close>

definition initial_form :: json where
  "initial_form =
     JObj
       [(''deck'', JObj [(''name'', JStr []), (''colors'', JArr []), (''size'', JNum 60),
                         (''max_card_copies'', JNum 4), (''legalities'', JArr [])]),
        (''categories'', JObj []),
        (''mana_base'', JObj [(''land_count'', JNum 24)]),
        (''card_constraints'', JObj []),
        (''priority_cards'', JArr []),
        (''scoring_rules'', JObj []),
        (''fallback_strategy'', JObj [])]"

text \<open>Reading \<open>form.section.key\<close>.\<close>

definition form_field :: "json option \<Rightarrow> string \<Rightarrow> string \<Rightarrow> json option" where
  "form_field form section key = get_prop (get_prop form section) key"

definition example_yaml :: json where
  "example_yaml =
     JObj [(''deck'', JObj [(''name'', JStr ''Gruul Stomp''), (''size'', JNum 100)]),
           (''mana_base'', JObj [(''special_lands'', JObj [])])]"

text \<open>The decimal digits: the characters of an array index used as a key.\<close>

definition is_digit :: "char \<Rightarrow> bool" where
  "is_digit c = (48 \<le> (of_char c :: nat) \<and> (of_char c :: nat) \<le> 57)"

section \<open>DeckViewer: saving and loading a deck\<close>

record viewer =
  localDeck :: "json list"
  localArena :: "json option"
  localAnalysis :: "json option"
  selected_file :: string
  status :: string

text \<open>
  \<open>JSON.stringify\<close> of an object literal leaves out a property whose value is
  \<open>undefined\<close>. \<open>saved_record\<close> is the document that the text written by \<open>saveDeck\<close>
  denotes: \<open>{ decklist: localDeck, arena: localArena, analysis: localAnalysis }\<close>.
\<close>

definition json_property :: "string \<Rightarrow> json option \<Rightarrow> (string \<times> json) list" where
  "json_property k v = (case v of None \<Rightarrow> [] | Some x \<Rightarrow> [(k, x)])"

definition saved_record :: "viewer \<Rightarrow> json" where
  "saved_record st =
     JObj (json_property ''decklist'' (Some (JArr (localDeck st)))
           @ json_property ''arena'' (localArena st)
           @ json_property ''analysis'' (localAnalysis st))"

text \<open>
  \<open>saveDeck\<close>: \<open>path\<close> is the answer to the prompt (empty when cancelled) and \<open>res_ok\<close>
  the outcome of the POST. The result is the request sent (path and document), if any,
  and the next state.
\<close>

definition saveDeck ::
  "string \<Rightarrow> bool \<Rightarrow> viewer \<Rightarrow> (string \<times> json) option \<times> viewer" where
  "saveDeck path res_ok st =
     (if path = [] then (None, st)
      else if res_ok
        then (Some (path, saved_record st),
              st\<lparr>selected_file := path, status := ''Saved '' @ path\<rparr>)
        else (Some (path, saved_record st), st\<lparr>status := ''Save failed''\<rparr>))"

text \<open>
  What \<open>loadDeck\<close> gets for a path: the request fails, the text is not JSON, or the text
  parses to a document.
\<close>

datatype fetched = FetchFailed | NotJSON | Parsed json

text \<open>
  \<open>loadDeck\<close>. Reading \<open>parsed.decklist\<close> of \<open>null\<close> throws inside the inner \<open>try\<close>, which
  reports the unsupported format like a parse error.
\<close>

definition loadDeck :: "string \<Rightarrow> fetched \<Rightarrow> viewer \<Rightarrow> viewer" where
  "loadDeck path r st =
     (if path = [] then st
      else case r of
        FetchFailed \<Rightarrow> st\<lparr>status := ''Failed to load '' @ path\<rparr>
      | NotJSON \<Rightarrow> st\<lparr>status := ''Unsupported format in '' @ path\<rparr>
      | Parsed JNull \<Rightarrow> st\<lparr>status := ''Unsupported format in '' @ path\<rparr>
      | Parsed parsed \<Rightarrow>
          (let rows = or_default (get_prop (Some parsed) ''decklist'') (JArr []);
               st1 = (case rows of JArr xs \<Rightarrow> st\<lparr>localDeck := xs\<rparr> | _ \<Rightarrow> st)
           in st1\<lparr>localArena := get_prop (Some parsed) ''arena'',
                  localAnalysis := get_prop (Some parsed) ''analysis'',
                  status := ''Loaded '' @ path\<rparr>))"

definition example_viewer :: viewer where
  "example_viewer =
     \<lparr>localDeck = [JObj [(''qty'', JNum 4), (''name'', JStr ''Shock''),
                        (''type'', JStr ''Instant''), (''mv'', JNum 1)]],
      localArena = Some (JStr ''4 Shock''),
      localAnalysis = None,
      selected_file = [],
      status = []\<rparr>"

definition blank_viewer :: viewer where
  "blank_viewer =
     \<lparr>localDeck = [], localArena = None, localAnalysis = Some JNull,
      selected_file = [], status = []\<rparr>"

section \<open>The deck-construction pipeline\<close>

text \<open>
  The selection pipeline of the specification (sections 3, 4 and 6) is a Python package
  that is not among the sources: only the frontend and the configuration guides are. Every
  definition of this section is therefore written from the specification, sentence by
  sentence, and says so. Counts are natural numbers. The optional \<open>mana_curve\<close> of the deck
  settings is left out: no contract of section 4 reads it. The entries of
  \<open>unmet_conditions\<close> are kept as structured values (kind, subject, requested and achieved
  count), the detail the specification asks their text to carry.
\<close>

text \<open>Modelled from the spec: the type \<open>Color\<close> of section 3 (the Python enumeration is absent).\<close>

datatype Color = W | U | B | R | G | C

text \<open>
  Modelled from the spec: the record \<open>CandidateCard\<close> of section 3 (the repository's card
  class is absent); \<open>name\<close> and \<open>keywords\<close> are spelt \<open>card_name\<close> and \<open>card_keywords\<close>.
\<close>

record CandidateCard =
  card_name :: string
  colors :: "Color list"
  color_identity :: "Color list"
  mana_value :: int
  rarity :: string
  basic_types :: "string list"
  sub_types :: "string list"
  super_types :: "string list"
  card_keywords :: "string list"
  oracle_text :: string
  legalities :: "string list"
  owned_qty :: nat

text \<open>Modelled from the spec: the enumeration \<open>color_match_mode\<close> of \<open>DeckConfig\<close> (section 3).\<close>

datatype color_match_mode = Exact | Subset | Any

text \<open>
  Modelled from the spec: the record \<open>DeckConfig\<close> of section 3 (the configuration class is
  absent); \<open>colors\<close> is a list, since section 4.5 speaks of the colour-list order.
\<close>

record DeckConfig =
  deck_name :: string
  deck_colors :: "Color list"
  color_match_mode :: color_match_mode
  deck_size :: nat
  max_card_copies :: nat
  allow_colorless :: bool
  deck_legalities :: "string list"
  owned_cards_only :: bool

text \<open>
  Modelled from the spec: the tagged union \<open>MatchRule\<close> of section 3; a compiled pattern
  is the search it performs on a text.
\<close>

datatype MatchRule = Literal string | Regex "string \<Rightarrow> bool"

text \<open>Modelled from the spec: the record \<open>Category\<close> of section 3.\<close>

record Category =
  key :: string
  target :: nat
  preferred_keywords :: "string list"
  priority_text :: "MatchRule list"
  preferred_basic_type_priority :: "string list"

text \<open>
  Modelled from the spec: the record \<open>ScoringRules\<close> of section 3; a map is an association
  list, \<open>type_bonus\<close> and \<open>mana_penalty\<close> are flattened.
\<close>

record ScoringRules =
  keyword_abilities :: "(string \<times> int) list"
  keyword_actions :: "(string \<times> int) list"
  ability_words :: "(string \<times> int) list"
  text_matches :: "(MatchRule \<times> int) list"
  type_bonus_basic_types :: "(string \<times> int) list"
  type_bonus_sub_types :: "(string \<times> int) list"
  type_bonus_super_types :: "(string \<times> int) list"
  rarity_bonus :: "(string \<times> int) list"
  mana_penalty_threshold :: int
  mana_penalty_per_point :: int
  min_score_to_flag :: int

text \<open>Modelled from the spec: the record \<open>CardConstraints\<close> of section 3.\<close>

record CardConstraints =
  rarity_boost :: "(string \<times> int) list"
  exclude_keywords :: "string list"

text \<open>Modelled from the spec: the record \<open>ManaBaseConfig\<close> of section 3, flattened.\<close>

record ManaBaseConfig =
  land_count :: nat
  special_lands_count :: nat
  special_lands_prefer :: "string list"
  special_lands_avoid :: "string list"
  adjust_by_mana_symbols :: bool

text \<open>Modelled from the spec: the record \<open>PriorityCard\<close> of section 3.\<close>

record PriorityCard =
  priority_name :: string
  min_copies :: nat

text \<open>Modelled from the spec: the record \<open>FallbackStrategy\<close> of section 3.\<close>

record FallbackStrategy =
  fill_with_any :: bool
  fill_priority :: "string list"
  allow_less_than_target :: bool

text \<open>
  Modelled from the spec: the normalized configuration handed to the build entry point of
  section 6, with the parts that sections 4.2 to 4.6 read.
\<close>

record Config =
  deck :: DeckConfig
  categories :: "Category list"
  scoring_rules :: ScoringRules
  card_constraints :: CardConstraints
  mana_base :: ManaBaseConfig
  priority_cards :: "PriorityCard list"
  fallback_strategy :: FallbackStrategy

text \<open>
  Modelled from the spec: the record \<open>DeckCard\<close> of section 3; \<open>qty\<close> and \<open>score\<close> are spelt
  \<open>card_qty\<close> and \<open>card_score\<close>.
\<close>

record DeckCard =
  card :: CandidateCard
  card_qty :: nat
  reasons :: "string list"
  card_score :: int

text \<open>
  Modelled from the spec: the non-fatal conditions of section 7, each with its subject,
  the requested and the achieved count.
\<close>

datatype Unmet =
    PriorityUnmet string nat nat
  | CategoryShortfall string nat nat
  | ManaBaseShortfall nat nat
  | FallbackExhausted nat nat

text \<open>Modelled from the spec: an entry \<open>{target, added, remaining}\<close> of \<open>category_summary\<close>.\<close>

record CategorySummary =
  summary_target :: nat
  summary_added :: nat
  summary_remaining :: nat

text \<open>Modelled from the spec: the record \<open>BuildContext\<close> of section 3.\<close>

record BuildContext =
  operations :: "string list"
  unmet_conditions :: "Unmet list"
  category_summary :: "(string \<times> CategorySummary) list"

text \<open>
  Modelled from the spec: the state that the stages of section 4.7 pass on, the deck so
  far and the one \<open>BuildContext\<close> of the build.
\<close>

record BuildState =
  deck_cards :: "DeckCard list"
  trace :: BuildContext

text \<open>Modelled from the spec: a stage appends an operation string to the trace (section 4.7).\<close>

definition log_operation :: "string \<Rightarrow> BuildState \<Rightarrow> BuildState" where
  "log_operation s st = st\<lparr>trace := (trace st)\<lparr>operations := operations (trace st) @ [s]\<rparr>\<rparr>"

text \<open>Modelled from the spec: a stage appends an entry to \<open>unmet_conditions\<close> (section 7).\<close>

definition log_unmet :: "Unmet \<Rightarrow> BuildState \<Rightarrow> BuildState" where
  "log_unmet u st =
     st\<lparr>trace := (trace st)\<lparr>unmet_conditions := unmet_conditions (trace st) @ [u]\<rparr>\<rparr>"

subsection \<open>Scoring Engine\<close>

text \<open>
  Modelled from the spec: a \<open>MatchRule\<close> against a text, case-insensitive; a literal matches
  by substring, a pattern by its search (section 4.2).
\<close>

fun matches :: "MatchRule \<Rightarrow> string \<Rightarrow> bool" where
  "matches (Literal s) text = str_includes (toLowerCase text) (toLowerCase s)"
| "matches (Regex search) text = search (toLowerCase text)"

text \<open>
  Modelled from the spec: the contribution of one table of section 4.2, the weights of the
  entries present in the card's structured list.
\<close>

definition table_bonus :: "(string \<times> int) list \<Rightarrow> string list \<Rightarrow> int" where
  "table_bonus table present = sum_list (map snd (filter (\<lambda>kw. fst kw \<in> set present) table))"

text \<open>Modelled from the spec: the contribution of \<open>text_matches\<close> (section 4.2, item b).\<close>

definition text_bonus :: "(MatchRule \<times> int) list \<Rightarrow> string \<Rightarrow> int" where
  "text_bonus table text = sum_list (map snd (filter (\<lambda>mw. matches (fst mw) text) table))"

text \<open>Modelled from the spec: the \<open>mana_penalty\<close> of section 4.2, item e.\<close>

definition mana_penalty :: "ScoringRules \<Rightarrow> CandidateCard \<Rightarrow> int" where
  "mana_penalty rules c =
     (if mana_value c > mana_penalty_threshold rules
      then mana_penalty_per_point rules * (mana_value c - mana_penalty_threshold rules)
      else 0)"

text \<open>Modelled from the spec: \<open>score(card, rules)\<close> of section 4.2, the sum of items a to e.\<close>

definition score :: "CandidateCard \<Rightarrow> ScoringRules \<Rightarrow> int" where
  "score c rules =
     table_bonus (keyword_abilities rules) (card_keywords c)
     + table_bonus (keyword_actions rules) (card_keywords c)
     + table_bonus (ability_words rules) (card_keywords c)
     + text_bonus (text_matches rules) (oracle_text c)
     + table_bonus (type_bonus_basic_types rules) (basic_types c)
     + table_bonus (type_bonus_sub_types rules) (sub_types c)
     + table_bonus (type_bonus_super_types rules) (super_types c)
     + (case map_of (rarity_bonus rules) (rarity c) of None \<Rightarrow> 0 | Some w \<Rightarrow> w)
     - mana_penalty rules c"

text \<open>
  Modelled from the spec: the additional additive bonuses of a category (section 4.4). The
  specification gives them no weights; each match counts one.
\<close>

definition category_bonus :: "Category \<Rightarrow> CandidateCard \<Rightarrow> int" where
  "category_bonus cat c =
     int (length (filter (\<lambda>k. k \<in> set (card_keywords c)) (preferred_keywords cat)))
     + int (length (filter (\<lambda>m. matches m (oracle_text c)) (priority_text cat)))
     + int (length (filter (\<lambda>t. t \<in> set (basic_types c)) (preferred_basic_type_priority cat)))"

text \<open>
  Modelled from the spec: sorting descending by score (section 4.4). The specification
  leaves the order among equal scores open; the sort is stable, so ties keep the order of
  the pool.
\<close>

definition ranked :: "(CandidateCard \<Rightarrow> int) \<Rightarrow> CandidateCard list \<Rightarrow> CandidateCard list" where
  "ranked f cs = sort_key (\<lambda>c. - f c) cs"

subsection \<open>The repository's filters\<close>

text \<open>Modelled from the spec: a land is a card with the basic type Land (glossary, section 4.5).\<close>

definition is_land :: "CandidateCard \<Rightarrow> bool" where
  "is_land c = (''Land'' \<in> set (basic_types c))"

text \<open>Modelled from the spec: a basic land is a land with the supertype Basic (section 4.5).\<close>

definition is_basic_land :: "CandidateCard \<Rightarrow> bool" where
  "is_basic_land c = (is_land c \<and> ''Basic'' \<in> set (super_types c))"

text \<open>
  Modelled from the spec: legality, a hard filter (glossary): the card is permitted in
  every format the deck names.
\<close>

definition legal :: "Config \<Rightarrow> CandidateCard \<Rightarrow> bool" where
  "legal cfg c = list_all (\<lambda>f. f \<in> set (legalities c)) (deck_legalities (deck cfg))"

text \<open>
  Modelled from the spec: colour compatibility by \<open>color_match_mode\<close> on the colour
  identity (glossary), with \<open>allow_colorless\<close> deciding the cards of no colour.
\<close>

definition color_compatible :: "Config \<Rightarrow> CandidateCard \<Rightarrow> bool" where
  "color_compatible cfg c =
     (if color_identity c = [] then allow_colorless (deck cfg)
      else case color_match_mode (deck cfg) of
        Exact \<Rightarrow> set (color_identity c) = set (deck_colors (deck cfg))
      | Subset \<Rightarrow> list_all (\<lambda>x. x \<in> set (deck_colors (deck cfg))) (color_identity c)
      | Any \<Rightarrow> list_ex (\<lambda>x. x \<in> set (deck_colors (deck cfg))) (color_identity c))"

text \<open>
  Modelled from the spec: \<open>filterCards\<close> of section 6 with the implicit filters of section
  4.4 (deck colours, legality, ownership if configured, \<open>exclude_keywords\<close>), over the pool
  snapshot in catalogue order.
\<close>

definition filterCards :: "Config \<Rightarrow> CandidateCard list \<Rightarrow> CandidateCard list" where
  "filterCards cfg pool =
     filter (\<lambda>c. color_compatible cfg c \<and> legal cfg c
                \<and> (owned_cards_only (deck cfg) \<longrightarrow> 0 < owned_qty c)
                \<and> \<not> list_ex (\<lambda>k. k \<in> set (card_keywords c))
                       (exclude_keywords (card_constraints cfg)))
            pool"

text \<open>Modelled from the spec: \<open>findByName\<close> of section 6, by exact name.\<close>

definition findByName :: "CandidateCard list \<Rightarrow> string \<Rightarrow> CandidateCard option" where
  "findByName pool n = find (\<lambda>c. card_name c = n) pool"

subsection \<open>Copy-limit bookkeeping\<close>

text \<open>Modelled from the spec: the total \<open>qty\<close> of the deck rows whose card satisfies a condition.\<close>

definition qty_where :: "(CandidateCard \<Rightarrow> bool) \<Rightarrow> DeckCard list \<Rightarrow> nat" where
  "qty_where P d = sum_list (map card_qty (filter (\<lambda>r. P (card r)) d))"

text \<open>Modelled from the spec: the total \<open>qty\<close> of a card name across the deck (section 8).\<close>

definition copies_of :: "string \<Rightarrow> DeckCard list \<Rightarrow> nat" where
  "copies_of n d = qty_where (\<lambda>c. card_name c = n) d"

text \<open>
  Modelled from the spec: the total \<open>qty\<close> of a card name across the deck, basic lands
  excluded (section 8).
\<close>

definition nonbasic_copies :: "string \<Rightarrow> DeckCard list \<Rightarrow> nat" where
  "nonbasic_copies n d = qty_where (\<lambda>c. card_name c = n \<and> \<not> is_basic_land c) d"

text \<open>Modelled from the spec: the size of the deck, the total \<open>qty\<close> of its rows.\<close>

definition deck_total :: "DeckCard list \<Rightarrow> nat" where
  "deck_total d = qty_where (\<lambda>c. True) d"

text \<open>
  Modelled from the spec: how many of \<open>want\<close> copies of a card may still be added: capped at
  \<open>max_card_copies\<close> unless the card is a basic land (section 4.5), capped at \<open>owned_qty\<close>
  when \<open>owned_cards_only\<close> (section 4.3), both counted per card name over the whole deck
  (\<open>copy-limit bookkeeping is global per card name\<close>).
\<close>

definition allowance :: "Config \<Rightarrow> DeckCard list \<Rightarrow> CandidateCard \<Rightarrow> nat \<Rightarrow> nat" where
  "allowance cfg d c want =
     (let have = copies_of (card_name c) d;
          a = (if is_basic_land c then want
               else min want (max_card_copies (deck cfg) - have))
      in if owned_cards_only (deck cfg) then min a (owned_qty c - have) else a)"

text \<open>
  Modelled from the spec: putting copies of a card into the deck: the row of that card
  grows and gains the reasons, or a new row is appended.
\<close>

fun add_row :: "DeckCard \<Rightarrow> DeckCard list \<Rightarrow> DeckCard list" where
  "add_row r [] = [r]"
| "add_row r (x # xs) =
     (if card x = card r
      then x\<lparr>card_qty := card_qty x + card_qty r, reasons := reasons x @ reasons r\<rparr> # xs
      else x # add_row r xs)"

text \<open>
  Modelled from the spec: adding up to \<open>want\<close> copies of a card under the copy limits; the
  result is the number added and the deck.
\<close>

definition add_copies ::
  "Config \<Rightarrow> CandidateCard \<Rightarrow> nat \<Rightarrow> string list \<Rightarrow> DeckCard list \<Rightarrow> nat \<times> DeckCard list" where
  "add_copies cfg c want why d =
     (let g = allowance cfg d c want
      in if g = 0 then (0, d)
         else (g, add_row \<lparr>card = c, card_qty = g, reasons = why,
                           card_score = score c (scoring_rules cfg)\<rparr> d))"

text \<open>
  Modelled from the spec: the reasons of a selected card; \<open>min_score_to_flag\<close> only marks
  the card as notable (section 4.2).
\<close>

definition reasons_for :: "Config \<Rightarrow> string \<Rightarrow> CandidateCard \<Rightarrow> string list" where
  "reasons_for cfg why c =
     (if min_score_to_flag (scoring_rules cfg) \<le> score c (scoring_rules cfg)
      then [why, ''notable''] else [why])"

text \<open>
  Modelled from the spec: selecting from a ranked list until the open slots are filled or
  the list is exhausted, at most \<open>per\<close> copies of each candidate, respecting the copy
  limits (sections 4.4 to 4.6). The result is the number of cards added and the deck.
\<close>

fun take_ranked ::
  "Config \<Rightarrow> string \<Rightarrow> nat \<Rightarrow> CandidateCard list \<Rightarrow> nat \<Rightarrow> DeckCard list
     \<Rightarrow> nat \<times> DeckCard list" where
  "take_ranked cfg why per [] slots d = (0, d)"
| "take_ranked cfg why per (c # cs) slots d =
     (if slots = 0 then (0, d)
      else case add_copies cfg c (min per slots) (reasons_for cfg why c) d of
        (g, d1) \<Rightarrow>
          (case take_ranked cfg why per cs (slots - g) d1 of
             (n, d2) \<Rightarrow> (g + n, d2)))"

subsection \<open>Priority Injector\<close>

text \<open>
  Modelled from the spec: section 4.3 for one priority card: found, legal and
  colour-compatible, it is added with the reason \<open>priority\<close> up to the caps; when the deck
  then holds fewer than \<open>min_copies\<close> of it, the entry records the requested count against
  the achieved one, the quantity of the card in the deck (section 7; in the scenario of
  section 8 the deck holds 1 copy of 4 and the shortfall is 3). Otherwise only the unmet
  condition is recorded.
\<close>

definition inject_one ::
  "Config \<Rightarrow> CandidateCard list \<Rightarrow> PriorityCard \<Rightarrow> BuildState \<Rightarrow> BuildState" where
  "inject_one cfg pool p st =
     (case findByName pool (priority_name p) of
        None \<Rightarrow>
          log_unmet (PriorityUnmet (priority_name p) (min_copies p) 0)
            (log_operation (''priority: not found: '' @ priority_name p) st)
      | Some c \<Rightarrow>
          if legal cfg c \<and> color_compatible cfg c then
            (case add_copies cfg c (min_copies p) [''priority''] (deck_cards st) of
               (g, d) \<Rightarrow>
                 (let st1 = log_operation (''priority: added '' @ priority_name p)
                              (st\<lparr>deck_cards := d\<rparr>);
                      achieved = copies_of (priority_name p) d
                  in if achieved < min_copies p
                     then log_unmet (PriorityUnmet (priority_name p) (min_copies p) achieved) st1
                     else st1))
          else
            log_unmet (PriorityUnmet (priority_name p) (min_copies p) 0)
              (log_operation (''priority: not legal: '' @ priority_name p) st))"

text \<open>Modelled from the spec: section 4.3, the priority cards in declaration order.\<close>

fun inject_priority ::
  "Config \<Rightarrow> CandidateCard list \<Rightarrow> PriorityCard list \<Rightarrow> BuildState \<Rightarrow> BuildState" where
  "inject_priority cfg pool [] st = st"
| "inject_priority cfg pool (p # ps) st = inject_priority cfg pool ps (inject_one cfg pool p st)"

subsection \<open>Category Selector\<close>

text \<open>
  Modelled from the spec: the policy note of section 4.4: when the targets plus
  \<open>land_count\<close> exceed the deck size, the targets are scaled down proportionally.
\<close>

definition scaled_targets :: "Config \<Rightarrow> nat list" where
  "scaled_targets cfg =
     (let ts = map target (categories cfg);
          total = sum_list ts;
          size = deck_size (deck cfg);
          lands = land_count (mana_base cfg)
      in if size < total + lands then map (\<lambda>t. t * (size - lands) div total) ts else ts)"

text \<open>
  Modelled from the spec: section 4.4 for one category: the candidates not yet at their
  cap, ranked by score plus the category's bonuses, one copy of each from the top until
  the target is filled; the summary and a shortfall are recorded.
\<close>

definition select_category ::
  "Config \<Rightarrow> CandidateCard list \<Rightarrow> Category \<Rightarrow> nat \<Rightarrow> BuildState \<Rightarrow> BuildState" where
  "select_category cfg pool cat tgt st =
     (let d = deck_cards st;
          candidates = filter (\<lambda>c. 0 < allowance cfg d c 1) (filterCards cfg pool);
          order = ranked (\<lambda>c. score c (scoring_rules cfg) + category_bonus cat c) candidates
      in case take_ranked cfg (key cat) 1 order tgt d of
        (added, d1) \<Rightarrow>
          (let summary = \<lparr>summary_target = tgt, summary_added = added,
                           summary_remaining = tgt - added\<rparr>;
               st1 = log_operation (''category: '' @ key cat)
                       (st\<lparr>deck_cards := d1,
                           trace := (trace st)\<lparr>category_summary :=
                             category_summary (trace st) @ [(key cat, summary)]\<rparr>\<rparr>)
           in if added < tgt then log_unmet (CategoryShortfall (key cat) tgt added) st1
              else st1))"

text \<open>Modelled from the spec: section 4.4, the categories in their declared order.\<close>

fun select_categories ::
  "Config \<Rightarrow> CandidateCard list \<Rightarrow> (Category \<times> nat) list \<Rightarrow> BuildState \<Rightarrow> BuildState" where
  "select_categories cfg pool [] st = st"
| "select_categories cfg pool ((cat, tgt) # rest) st =
     select_categories cfg pool rest (select_category cfg pool cat tgt st)"

text \<open>
  Modelled from the spec: the Category Selector, with the scaling declared in the trace
  when it applies.
\<close>

definition select_all :: "Config \<Rightarrow> CandidateCard list \<Rightarrow> BuildState \<Rightarrow> BuildState" where
  "select_all cfg pool st =
     select_categories cfg pool (zip (categories cfg) (scaled_targets cfg))
       (if scaled_targets cfg = map target (categories cfg) then st
        else log_operation ''categories: targets scaled down'' st)"

subsection \<open>Mana Base Builder\<close>

text \<open>Modelled from the spec: the basic land of a deck colour (section 4.5).\<close>

fun basic_land_name :: "Color \<Rightarrow> string" where
  "basic_land_name W = ''Plains''"
| "basic_land_name U = ''Island''"
| "basic_land_name B = ''Swamp''"
| "basic_land_name R = ''Mountain''"
| "basic_land_name G = ''Forest''"
| "basic_land_name C = ''Wastes''"

text \<open>Modelled from the spec: the card of a basic land, as the builder puts it in the deck.\<close>

definition basic_land :: "Color \<Rightarrow> CandidateCard" where
  "basic_land col =
     \<lparr>card_name = basic_land_name col, colors = [], color_identity = [col], mana_value = 0,
      rarity = ''common'', basic_types = [''Land''], sub_types = [], super_types = [''Basic''],
      card_keywords = [], oracle_text = [], legalities = [], owned_qty = 0\<rparr>"

text \<open>Modelled from the spec: the count of keyword matches in a land's text (section 4.5).\<close>

definition text_hits :: "string list \<Rightarrow> CandidateCard \<Rightarrow> nat" where
  "text_hits ks c = length (filter (\<lambda>k. matches (Literal k) (oracle_text c)) ks)"

text \<open>
  Modelled from the spec: the special-land candidates of section 4.5: the non-basic lands
  of the pool that match no \<open>avoid\<close> keyword, ranked by their count of \<open>prefer\<close> matches.
\<close>

definition special_candidates :: "Config \<Rightarrow> CandidateCard list \<Rightarrow> CandidateCard list" where
  "special_candidates cfg pool =
     ranked (\<lambda>c. int (text_hits (special_lands_prefer (mana_base cfg)) c))
       (filter (\<lambda>c. is_land c \<and> \<not> is_basic_land c
                     \<and> text_hits (special_lands_avoid (mana_base cfg)) c = 0)
          (filterCards cfg pool))"

text \<open>
  Modelled from the spec: \<open>first select up to special_lands.count lands\<close> into the
  \<open>land_count\<close> land slots, one copy of each from the top (section 4.5).
\<close>

definition select_special ::
  "Config \<Rightarrow> CandidateCard list \<Rightarrow> DeckCard list \<Rightarrow> nat \<times> DeckCard list" where
  "select_special cfg pool d =
     take_ranked cfg ''special land'' 1 (special_candidates cfg pool)
       (min (special_lands_count (mana_base cfg)) (land_count (mana_base cfg))) d"

text \<open>
  Modelled from the spec: the mana symbols of a colour across the costs of the spells
  selected so far (section 4.5). The cost is not a field of \<open>CandidateCard\<close>; the number of
  symbols of a colour in a card's cost is the parameter \<open>symbols\<close>.
\<close>

definition pip_count :: "(CandidateCard \<Rightarrow> Color \<Rightarrow> nat) \<Rightarrow> DeckCard list \<Rightarrow> Color \<Rightarrow> nat" where
  "pip_count symbols d col =
     sum_list (map (\<lambda>r. card_qty r * symbols (card r) col)
                (filter (\<lambda>r. \<not> is_land (card r)) d))"

text \<open>
  Modelled from the spec: the rounded-down shares of section 4.5: by the relative
  frequency of the colours' symbols when \<open>adjust_by_mana_symbols\<close> is true (and there is a
  symbol to count), otherwise an even split.
\<close>

definition base_shares :: "bool \<Rightarrow> nat list \<Rightarrow> nat \<Rightarrow> nat list" where
  "base_shares adjust pips slots =
     (if adjust \<and> 0 < sum_list pips
      then map (\<lambda>p. slots * p div sum_list pips) pips
      else map (\<lambda>p. slots div length pips) pips)"

text \<open>
  Modelled from the spec: \<open>distribute remainder in color-list order\<close>: one more land for
  each colour from the front of the list while the remainder lasts.
\<close>

fun give :: "nat \<Rightarrow> nat list \<Rightarrow> nat list" where
  "give r [] = []"
| "give r (x # xs) = (if r = 0 then x # xs else Suc x # give (r - 1) xs)"

text \<open>Modelled from the spec: \<open>round down, then distribute remainder\<close> (section 4.5).\<close>

definition apportion :: "bool \<Rightarrow> nat list \<Rightarrow> nat \<Rightarrow> nat list" where
  "apportion adjust pips slots =
     (let base = base_shares adjust pips slots in give (slots - sum_list base) base)"

text \<open>
  Modelled from the spec: the basic lands of section 4.5: the remaining
  \<open>land_count - selected_special\<close> slots, apportioned across \<open>deck.colors\<close>.
\<close>

definition basic_lands ::
  "(CandidateCard \<Rightarrow> Color \<Rightarrow> nat) \<Rightarrow> Config \<Rightarrow> DeckCard list \<Rightarrow> nat
     \<Rightarrow> (Color \<times> nat) list" where
  "basic_lands symbols cfg d special =
     (let cols = deck_colors (deck cfg)
      in zip cols
           (apportion (adjust_by_mana_symbols (mana_base cfg))
              (map (pip_count symbols d) cols)
              (land_count (mana_base cfg) - special)))"

text \<open>
  Modelled from the spec: the basic lands go into the deck as apportioned; they are exempt
  from \<open>max_card_copies\<close> (section 4.5).
\<close>

fun add_basics :: "(Color \<times> nat) list \<Rightarrow> DeckCard list \<Rightarrow> DeckCard list" where
  "add_basics [] d = d"
| "add_basics ((col, n) # rest) d =
     add_basics rest
       (if n = 0 then d
        else add_row \<lparr>card = basic_land col, card_qty = n, reasons = [''basic land''],
                       card_score = 0\<rparr> d)"

text \<open>
  Modelled from the spec: the Mana Base Builder of section 4.5: special lands, then basic
  lands; a base short of \<open>land_count\<close> is recorded as \<open>ManaBaseShortfall\<close> (section 7).
\<close>

definition build_mana_base ::
  "(CandidateCard \<Rightarrow> Color \<Rightarrow> nat) \<Rightarrow> Config \<Rightarrow> CandidateCard list \<Rightarrow> BuildState
     \<Rightarrow> BuildState" where
  "build_mana_base symbols cfg pool st =
     (case select_special cfg pool (deck_cards st) of
        (special, d1) \<Rightarrow>
          (let basics = basic_lands symbols cfg (deck_cards st) special;
               lands = special + sum_list (map snd basics);
               st1 = log_operation ''mana base: lands selected''
                       (st\<lparr>deck_cards := add_basics basics d1\<rparr>)
           in if lands < land_count (mana_base cfg)
              then log_unmet (ManaBaseShortfall (land_count (mana_base cfg)) lands) st1
              else st1))"

subsection \<open>Fallback Filler\<close>

text \<open>Modelled from the spec: the \<open>total non-land cards selected\<close> of section 4.6.\<close>

definition nonland_total :: "DeckCard list \<Rightarrow> nat" where
  "nonland_total d = qty_where (\<lambda>c. \<not> is_land c) d"

text \<open>
  Modelled from the spec: the gap of section 4.6, how far the non-land cards are below
  \<open>deck.size - land_count\<close>.
\<close>

definition gap :: "Config \<Rightarrow> DeckCard list \<Rightarrow> nat" where
  "gap cfg d = (deck_size (deck cfg) - land_count (mana_base cfg)) - nonland_total d"

text \<open>
  Modelled from the spec: \<open>honoring fill_priority order first, then any remaining
  category\<close> (section 4.6).
\<close>

definition fill_order :: "Config \<Rightarrow> string list" where
  "fill_order cfg =
     filter (\<lambda>k. k \<in> set (map key (categories cfg))) (fill_priority (fallback_strategy cfg))
     @ filter (\<lambda>k. k \<notin> set (fill_priority (fallback_strategy cfg))) (map key (categories cfg))"

text \<open>
  Modelled from the spec: the \<open>legal, color-compatible candidates\<close> that can close a gap
  of non-land cards (section 4.6).
\<close>

definition spell_candidates :: "Config \<Rightarrow> CandidateCard list \<Rightarrow> CandidateCard list" where
  "spell_candidates cfg pool = filter (\<lambda>c. \<not> is_land c) (filterCards cfg pool)"

text \<open>
  Modelled from the spec: the fallback draws for the categories in fill order, one copy of
  each candidate from the top of the category's ranking while the gap is open.
\<close>

fun fill_categories ::
  "Config \<Rightarrow> CandidateCard list \<Rightarrow> string list \<Rightarrow> DeckCard list \<Rightarrow> DeckCard list" where
  "fill_categories cfg pool [] d = d"
| "fill_categories cfg pool (k # ks) d =
     (case find (\<lambda>cat. key cat = k) (categories cfg) of
        None \<Rightarrow> fill_categories cfg pool ks d
      | Some cat \<Rightarrow>
          fill_categories cfg pool ks
            (snd (take_ranked cfg ''fallback'' 1
                    (ranked (\<lambda>c. score c (scoring_rules cfg) + category_bonus cat c)
                       (spell_candidates cfg pool))
                    (gap cfg d) d)))"

text \<open>
  Modelled from the spec: the last fallback draw, candidates of any category ranked by
  their score, each up to its cap, \<open>until the gap is closed or the pool is exhausted\<close>.
\<close>

definition fill_any :: "Config \<Rightarrow> CandidateCard list \<Rightarrow> DeckCard list \<Rightarrow> DeckCard list" where
  "fill_any cfg pool d =
     snd (take_ranked cfg ''fallback'' (gap cfg d)
            (ranked (\<lambda>c. score c (scoring_rules cfg)) (spell_candidates cfg pool))
            (gap cfg d) d)"

text \<open>
  Modelled from the spec: the Fallback Filler of section 4.6; a gap that remains is
  recorded as \<open>FallbackExhausted\<close>.
\<close>

definition fallback_fill :: "Config \<Rightarrow> CandidateCard list \<Rightarrow> BuildState \<Rightarrow> BuildState" where
  "fallback_fill cfg pool st =
     (let d = deck_cards st; open_slots = gap cfg d
      in if open_slots = 0 then st
         else
           (let d1 = (if fill_with_any (fallback_strategy cfg)
                      then fill_any cfg pool (fill_categories cfg pool (fill_order cfg) d)
                      else d);
                st1 = log_operation ''fallback: filling open slots'' (st\<lparr>deck_cards := d1\<rparr>)
            in if 0 < gap cfg d1
               then log_unmet (FallbackExhausted open_slots (open_slots - gap cfg d1)) st1
               else st1))"

subsection \<open>Deck Assembler\<close>

text \<open>Modelled from the spec: the result record of the build entry point (section 6).\<close>

record BuildOutput =
  decklist :: "DeckCard list"
  build_log :: "string list option"
  build_context :: "BuildContext option"

text \<open>
  Modelled from the spec: the outcome of a build, a result or the fatal \<open>BuildFailure\<close>
  with the trace (sections 4.7 and 7).
\<close>

datatype BuildResult = is_Built: Built (built_output: BuildOutput) | BuildFailure BuildContext

text \<open>Modelled from the spec: the \<open>BuildContext\<close> is created at build start (section 3).\<close>

definition initial_state :: BuildState where
  "initial_state =
     \<lparr>deck_cards = [],
      trace = \<lparr>operations = [], unmet_conditions = [], category_summary = []\<rparr>\<rparr>"

text \<open>Modelled from the spec: the stages before the mana base, in the fixed order of section 4.7.\<close>

definition select_spells :: "Config \<Rightarrow> CandidateCard list \<Rightarrow> BuildState" where
  "select_spells cfg pool =
     select_all cfg pool (inject_priority cfg pool (priority_cards cfg) initial_state)"

text \<open>Modelled from the spec: all stages in the fixed order of sections 2 and 4.7.\<close>

definition run_pipeline ::
  "(CandidateCard \<Rightarrow> Color \<Rightarrow> nat) \<Rightarrow> Config \<Rightarrow> CandidateCard list \<Rightarrow> BuildState" where
  "run_pipeline symbols cfg pool =
     fallback_fill cfg pool (build_mana_base symbols cfg pool (select_spells cfg pool))"

text \<open>
  Modelled from the spec: the build entry point of section 6: the build fails when
  \<open>allow_less_than_target\<close> is false and the final deck is short of \<open>deck.size\<close> (section
  7); otherwise it returns the deck, with the log and the context when \<open>debug\<close> is set.
\<close>

definition build ::
  "(CandidateCard \<Rightarrow> Color \<Rightarrow> nat) \<Rightarrow> Config \<Rightarrow> bool \<Rightarrow> CandidateCard list \<Rightarrow> BuildResult" where
  "build symbols cfg debug pool =
     (let st = run_pipeline symbols cfg pool
      in if \<not> allow_less_than_target (fallback_strategy cfg)
            \<and> deck_total (deck_cards st) < deck_size (deck cfg)
         then BuildFailure (trace st)
         else Built \<lparr>decklist = deck_cards st,
                     build_log = (if debug then Some (operations (trace st)) else None),
                     build_context = (if debug then Some (trace st) else None)\<rparr>)"

subsection \<open>The words of the pipeline's properties\<close>

text \<open>
  Modelled from the spec: the number of special lands the Mana Base Builder selects in a
  build.
\<close>

definition special_selected :: "Config \<Rightarrow> CandidateCard list \<Rightarrow> nat" where
  "special_selected cfg pool = fst (select_special cfg pool (deck_cards (select_spells cfg pool)))"

text \<open>
  Modelled from the spec: the basic lands the Mana Base Builder selects in a build, by
  colour.
\<close>

definition basics_selected ::
  "(CandidateCard \<Rightarrow> Color \<Rightarrow> nat) \<Rightarrow> Config \<Rightarrow> CandidateCard list \<Rightarrow> (Color \<times> nat) list" where
  "basics_selected symbols cfg pool =
     basic_lands symbols cfg (deck_cards (select_spells cfg pool)) (special_selected cfg pool)"

text \<open>
  Modelled from the spec: the bound of section 8,
  \<open>min(min_copies, max_card_copies, owned_qty if owned_cards_only)\<close>.
\<close>

definition priority_bound :: "Config \<Rightarrow> PriorityCard \<Rightarrow> CandidateCard \<Rightarrow> nat" where
  "priority_bound cfg p c =
     min (min_copies p)
       (if owned_cards_only (deck cfg) then min (max_card_copies (deck cfg)) (owned_qty c)
        else max_card_copies (deck cfg))"

text \<open>
  Modelled from the spec: the quantity of a priority card that the caps allow, in a deck
  that has none of it yet. For a card that is not a basic land it is \<open>priority_bound\<close>.
\<close>

definition achievable :: "Config \<Rightarrow> PriorityCard \<Rightarrow> CandidateCard \<Rightarrow> nat" where
  "achievable cfg p c = allowance cfg [] c (min_copies p)"

text \<open>
  Modelled from the spec: the copy cap of section 8 as a property of a deck, the growth
  of a deck, and what every stage keeps: the cap, the cards already in the deck, and the
  recorded conditions.
\<close>

definition within_cap :: "Config \<Rightarrow> DeckCard list \<Rightarrow> bool" where
  "within_cap cfg d = (\<forall>n. nonbasic_copies n d \<le> max_card_copies (deck cfg))"

text \<open>Modelled from the spec: a later deck holds at least the copies of an earlier one.\<close>

definition extends :: "DeckCard list \<Rightarrow> DeckCard list \<Rightarrow> bool" where
  "extends d d' = (\<forall>n. copies_of n d \<le> copies_of n d')"

text \<open>Modelled from the spec: what a stage keeps of the state it is given.\<close>

definition keeps :: "Config \<Rightarrow> BuildState \<Rightarrow> BuildState \<Rightarrow> bool" where
  "keeps cfg st st' =
     ((within_cap cfg (deck_cards st) \<longrightarrow> within_cap cfg (deck_cards st'))
      \<and> extends (deck_cards st) (deck_cards st')
      \<and> set (unmet_conditions (trace st)) \<subseteq> set (unmet_conditions (trace st')))"

text \<open>
  Modelled from the spec: priority-card precedence (section 8) as a property of a state:
  the achievable quantity is in the deck, and when it is below \<open>min_copies\<close> the entry
  with the requested and exactly the achievable count is recorded.
\<close>

definition injected :: "Config \<Rightarrow> PriorityCard \<Rightarrow> CandidateCard \<Rightarrow> BuildState \<Rightarrow> bool" where
  "injected cfg p c st =
     (achievable cfg p c \<le> copies_of (priority_name p) (deck_cards st)
      \<and> (achievable cfg p c < min_copies p \<longrightarrow>
           PriorityUnmet (priority_name p) (min_copies p) (achievable cfg p c)
             \<in> set (unmet_conditions (trace st))))"

text \<open>
  Modelled from the spec: the copy-limit bookkeeping of section 4.3 as a property of the
  deck while the priority cards are injected: of every card name the deck holds no more
  than the caps allow of the pool's card of that name.
\<close>

definition within_limits :: "Config \<Rightarrow> CandidateCard list \<Rightarrow> DeckCard list \<Rightarrow> bool" where
  "within_limits cfg pool d =
     (\<forall>n c. findByName pool n = Some c \<longrightarrow>
        allowance cfg [] c (copies_of n d) = copies_of n d)"

subsection \<open>Example builds\<close>

text \<open>Modelled from the spec: a creature card of the example pools.\<close>

definition spell :: "string \<Rightarrow> Color list \<Rightarrow> int \<Rightarrow> nat \<Rightarrow> CandidateCard" where
  "spell n cols v own =
     \<lparr>card_name = n, colors = cols, color_identity = cols, mana_value = v,
      rarity = ''common'', basic_types = [''Creature''], sub_types = [], super_types = [],
      card_keywords = [], oracle_text = [], legalities = [''standard''], owned_qty = own\<rparr>"

text \<open>Modelled from the spec: a pool of three red creatures and one special land.\<close>

definition example_pool :: "CandidateCard list" where
  "example_pool =
     [spell ''Goblin Guide'' [R] 1 1, spell ''Ember Hauler'' [R] 2 6,
      spell ''Fire Imp'' [R] 3 2,
      (spell ''Ramunap Ruins'' [R] 0 1)\<lparr>colors := [], basic_types := [''Land'']\<rparr>]"

text \<open>Modelled from the spec: scoring rules with empty tables.\<close>

definition no_rules :: ScoringRules where
  "no_rules =
     \<lparr>keyword_abilities = [], keyword_actions = [], ability_words = [],
      text_matches = [], type_bonus_basic_types = [], type_bonus_sub_types = [],
      type_bonus_super_types = [], rarity_bonus = [], mana_penalty_threshold = 5,
      mana_penalty_per_point = 1, min_score_to_flag = 5\<rparr>"

text \<open>
  Modelled from the spec: a mono-red configuration, owned cards only, with the priority
  card of the scenario of section 8 (\<open>min_copies = 4\<close>, one copy owned).
\<close>

definition example_config :: Config where
  "example_config =
     \<lparr>deck = \<lparr>deck_name = ''Mono Red'', deck_colors = [R], color_match_mode = Subset,
              deck_size = 13, max_card_copies = 4, allow_colorless = True,
              deck_legalities = [''standard''], owned_cards_only = True\<rparr>,
      categories = [\<lparr>key = ''creatures'', target = 2, preferred_keywords = [],
                      priority_text = [], preferred_basic_type_priority = []\<rparr>],
      scoring_rules = no_rules,
      card_constraints = \<lparr>rarity_boost = [], exclude_keywords = []\<rparr>,
      mana_base = \<lparr>land_count = 6, special_lands_count = 2, special_lands_prefer = [],
                   special_lands_avoid = [], adjust_by_mana_symbols = True\<rparr>,
      priority_cards = [\<lparr>priority_name = ''Goblin Guide'', min_copies = 4\<rparr>],
      fallback_strategy = \<lparr>fill_with_any = True, fill_priority = [],
                           allow_less_than_target = True\<rparr>\<rparr>"

text \<open>Modelled from the spec: the priority card of the example and its card in the pool.\<close>

definition example_priority :: PriorityCard where
  "example_priority = \<lparr>priority_name = ''Goblin Guide'', min_copies = 4\<rparr>"




text \<open>Modelled from the spec: a symbol count for the examples, one symbol per colour of a card.\<close>

definition one_pip :: "CandidateCard \<Rightarrow> Color \<Rightarrow> nat" where
  "one_pip c col = (if col \<in> set (colors c) then 1 else 0)"

text \<open>Modelled from the spec: the card of the example's priority card in the pool.\<close>

definition example_card :: CandidateCard where
  "example_card = spell ''Goblin Guide'' [R] 1 1"

section \<open>Properties of the ColorPicker\<close>

lemma toUpperCase_char_idem: "toUpperCase_char (toUpperCase_char c) = toUpperCase_char c"
proof -
  have "(of_char c :: nat) < 256" by simp
  then show ?thesis
    unfolding toUpperCase_char_def Let_def by (auto simp: mod_if)
qed

lemma toUpperCase_idem: "toUpperCase (toUpperCase s) = toUpperCase s"
  by (simp add: toUpperCase_def toUpperCase_char_idem)

lemma set_foldl_Set_add: "set (foldl Set_add acc xs) = set acc \<union> set xs"
  by (induction xs arbitrary: acc) (auto simp: Set_add_def)

lemma set_new_Set: "set (new_Set xs) = set xs"
  by (simp add: new_Set_def set_foldl_Set_add)

lemma distinct_foldl_Set_add: "distinct acc \<Longrightarrow> distinct (foldl Set_add acc xs)"
  by (induction xs arbitrary: acc) (auto simp: Set_add_def)

lemma distinct_new_Set: "distinct (new_Set xs)"
  by (simp add: new_Set_def distinct_foldl_Set_add)

lemma set_selected: "set (selected value) = toUpperCase ` set value"
  by (simp add: selected_def set_new_Set)

lemma set_toggle:
  "set (toggle value c) =
     (if c \<in> set (selected value) then set (selected value) - {c}
      else insert c (set (selected value)))"
  by (auto simp: toggle_def Let_def set_new_Set Set_delete_def Set_add_def)

lemma color_codes_upper: "c \<in> set color_codes \<Longrightarrow> toUpperCase c = c"
  unfolding color_codes_def COLOR_META_def
  by (auto simp: toUpperCase_def toUpperCase_char_def)

lemma selected_toggle:
  assumes u: "toUpperCase c = c"
  shows "set (selected (toggle value c)) = set (toggle value c)"
proof -
  have "\<forall>x \<in> set (toggle value c). toUpperCase x = x"
    using u by (auto simp: set_toggle set_selected toUpperCase_idem split: if_splits)
  then have "toUpperCase ` set (toggle value c) = set (toggle value c)" by force
  then show ?thesis by (simp add: set_selected)
qed

text \<open>
  C10. For every selection \<open>value\<close> and every colour code of the picker, \<open>toggle\<close> emits the
  normalised selection (upper-cased, as a set) with the code added if it was absent and
  removed if it was present; toggling the same code again, on the emitted selection,
  emits a selection equal as a set to the normalised original.
\<close>

theorem toggle_involution:
  assumes "c \<in> set color_codes"
  shows "set (toggle value c) =
           (if c \<in> set (selected value) then set (selected value) - {c}
            else insert c (set (selected value)))
         \<and> set (toggle (toggle value c) c) = set (selected value)"
proof -
  have u: "toUpperCase c = c" using assms by (rule color_codes_upper)
  have once: "set (toggle value c) =
           (if c \<in> set (selected value) then set (selected value) - {c}
            else insert c (set (selected value)))" by (rule set_toggle)
  have "set (toggle (toggle value c) c) =
     (if c \<in> set (toggle value c) then set (toggle value c) - {c}
      else insert c (set (toggle value c)))"
    by (simp add: set_toggle selected_toggle[OF u])
  with once show ?thesis by auto
qed

theorem toggle_involution_witness:
  "''U'' \<in> set color_codes
   \<and> set (toggle [''w'', ''u'', ''W''] ''U'') = {''W''}
   \<and> set (toggle (toggle [''w'', ''u'', ''W''] ''U'') ''U'') = {''W'', ''U''}"
proof -
  have m: "''U'' \<in> set color_codes" by (simp add: color_codes_def COLOR_META_def)
  have s: "set (selected [''w'', ''u'', ''W'']) = {''W'', ''U''}" by code_simp
  show ?thesis using toggle_involution[OF m, of "[''w'', ''u'', ''W'']"] m s by auto
qed

section \<open>Properties of the mana curve\<close>










section \<open>Properties of the configuration form\<close>

lemma map_of_fold_update:
  "map_of (fold (\<lambda>(k, v). AList.update k v) es ps) = map_of ps ++ map_of (rev es)"
proof (induction es arbitrary: ps)
  case Nil
  then show ?case by simp
next
  case (Cons e es)
  obtain k v where e: "e = (k, v)" by (cases e)
  have "map_of (fold (\<lambda>(k, v). AList.update k v) (e # es) ps)
      = map_of (AList.update k v ps) ++ map_of (rev es)"
    by (simp add: e Cons.IH)
  also have "\<dots> = map_of ps ++ map_of (rev (e # es))"
    by (rule ext) (simp add: e update_conv' map_add_def split: option.splits)
  finally show ?case .
qed

lemma map_of_rev_distinct: "distinct (map fst es) \<Longrightarrow> map_of (rev es) = map_of es"
  by (rule map_of_inject_set[THEN iffD2]) (simp_all add: rev_map[symmetric])

lemma index_key_digits: "index_key n \<noteq> [] \<and> (\<forall>c \<in> set (index_key n). is_digit c)"
proof (induction n rule: index_key.induct)
  case (1 n)
  show ?case
  proof (cases "n < 10")
    case True
    then show ?thesis
      by (subst index_key.simps, subst (2) index_key.simps) (simp add: is_digit_def)
  next
    case False
    have "n mod 10 < 10" by simp
    then have "is_digit (char_of (48 + n mod 10))" by (simp add: is_digit_def mod_if)
    with 1 False show ?thesis
      by (subst index_key.simps, subst (2) index_key.simps) simp
  qed
qed

lemma index_key_neq: "\<not> is_digit c \<Longrightarrow> index_key n \<noteq> c # cs"
  using index_key_digits[of n] by auto

lemma map_of_index_zip:
  assumes d: "\<not> is_digit c"
  shows "map_of (rev (zip (map index_key ns) vs)) (c # cs) = None"
proof -
  have "c # cs \<notin> fst ` set (zip (map index_key ns) vs)"
  proof
    assume "c # cs \<in> fst ` set (zip (map index_key ns) vs)"
    then obtain v where "(c # cs, v) \<in> set (zip (map index_key ns) vs)" by auto
    then have "c # cs \<in> set (map index_key ns)" by (rule set_zip_leftD)
    then obtain n where "index_key n = c # cs" by auto
    then show False using index_key_neq[OF d] by blast
  qed
  then show ?thesis by (simp add: map_of_eq_None_iff)
qed

lemma map_of_own_entries:
  assumes "\<not> is_digit c"
  shows "map_of (rev (own_entries x)) (c # cs) = get_prop x (c # cs)"
proof (cases x)
  case None
  then show ?thesis by simp
next
  case (Some j)
  then show ?thesis
    by (cases j) (simp_all add: map_of_index_zip[OF assms] map_of_rev_distinct map_of_clearjunk)
qed

lemma map_of_spread:
  assumes "\<not> is_digit c"
  shows "map_of (spread ps x) (c # cs) =
     (case get_prop x (c # cs) of None \<Rightarrow> map_of ps (c # cs) | Some v \<Rightarrow> Some v)"
  by (simp add: spread_def map_of_fold_update map_add_def map_of_own_entries[OF assms])

lemma get_or_default_obj: "get_prop (Some (or_default a (JObj []))) k = get_prop a k"
proof (cases a)
  case None
  then show ?thesis by (simp add: or_default_def)
next
  case (Some j)
  then show ?thesis by (cases j) (simp_all add: or_default_def)
qed

text \<open>
  C7. Loading a parsed configuration into the form fills in \<open>size = 60\<close>,
  \<open>max_card_copies = 4\<close> and \<open>land_count = 24\<close> exactly where the document has no such key,
  and keeps the document's value where it has one; the form's initial state carries the
  same three defaults.
\<close>

theorem config_defaults:
  assumes "truthy obj" and "typeof_object obj"
  shows "\<exists>form. loadSelectedConfig obj = Some form
     \<and> form_field (Some form) ''deck'' ''size'' =
         Some (case form_field obj ''deck'' ''size'' of None \<Rightarrow> JNum 60 | Some v \<Rightarrow> v)
     \<and> form_field (Some form) ''deck'' ''max_card_copies'' =
         Some (case form_field obj ''deck'' ''max_card_copies'' of
                 None \<Rightarrow> JNum 4 | Some v \<Rightarrow> v)
     \<and> form_field (Some form) ''mana_base'' ''land_count'' =
         Some (case form_field obj ''mana_base'' ''land_count'' of
                 None \<Rightarrow> JNum 24 | Some v \<Rightarrow> v)
     \<and> form_field (Some initial_form) ''deck'' ''size'' = Some (JNum 60)
     \<and> form_field (Some initial_form) ''deck'' ''max_card_copies'' = Some (JNum 4)
     \<and> form_field (Some initial_form) ''mana_base'' ''land_count'' = Some (JNum 24)"
proof -
  have s: "\<not> is_digit CHR ''s''" and m: "\<not> is_digit CHR ''m''" and l: "\<not> is_digit CHR ''l''"
    by (simp_all add: is_digit_def)
  have 1: "map_of (spread deck_defaults (get_prop obj ''deck'')) ''size'' =
         Some (case form_field obj ''deck'' ''size'' of None \<Rightarrow> JNum 60 | Some v \<Rightarrow> v)"
    by (simp add: map_of_spread[OF s] form_field_def deck_defaults_def split: option.splits)
  have 2: "map_of (spread deck_defaults (get_prop obj ''deck'')) ''max_card_copies'' =
         Some (case form_field obj ''deck'' ''max_card_copies'' of
                 None \<Rightarrow> JNum 4 | Some v \<Rightarrow> v)"
    by (simp add: map_of_spread[OF m] form_field_def deck_defaults_def split: option.splits)
  have 3: "map_of (spread [(''land_count'', JNum 24)]
                   (Some (or_default (get_prop obj ''mana_base'') (JObj [])))) ''land_count'' =
         Some (case form_field obj ''mana_base'' ''land_count'' of
                 None \<Rightarrow> JNum 24 | Some v \<Rightarrow> v)"
    by (simp add: map_of_spread[OF l] get_or_default_obj form_field_def split: option.splits)
  have 4: "form_field (Some initial_form) ''deck'' ''size'' = Some (JNum 60)"
     "form_field (Some initial_form) ''deck'' ''max_card_copies'' = Some (JNum 4)"
     "form_field (Some initial_form) ''mana_base'' ''land_count'' = Some (JNum 24)"
    by (simp_all add: form_field_def initial_form_def)
  show ?thesis using assms 1 2 3 4
    by (simp add: loadSelectedConfig_def form_field_def)
qed

theorem config_defaults_witness:
  "truthy (Some example_yaml) \<and> typeof_object (Some example_yaml)
   \<and> form_field (loadSelectedConfig (Some example_yaml)) ''deck'' ''size'' = Some (JNum 100)
   \<and> form_field (loadSelectedConfig (Some example_yaml)) ''deck'' ''max_card_copies''
       = Some (JNum 4)
   \<and> form_field (loadSelectedConfig (Some example_yaml)) ''mana_base'' ''land_count''
       = Some (JNum 24)"
proof -
  have t: "truthy (Some example_yaml)" and o: "typeof_object (Some example_yaml)"
    by (simp_all add: example_yaml_def)
  have f: "form_field (Some example_yaml) ''deck'' ''size'' = Some (JNum 100)"
     "form_field (Some example_yaml) ''deck'' ''max_card_copies'' = None"
     "form_field (Some example_yaml) ''mana_base'' ''land_count'' = None"
    by (simp_all add: example_yaml_def form_field_def)
  from config_defaults[OF t o] obtain form where
    "loadSelectedConfig (Some example_yaml) = Some form"
    "form_field (Some form) ''deck'' ''size'' =
       Some (case form_field (Some example_yaml) ''deck'' ''size'' of
               None \<Rightarrow> JNum 60 | Some v \<Rightarrow> v)"
    "form_field (Some form) ''deck'' ''max_card_copies'' =
       Some (case form_field (Some example_yaml) ''deck'' ''max_card_copies'' of
               None \<Rightarrow> JNum 4 | Some v \<Rightarrow> v)"
    "form_field (Some form) ''mana_base'' ''land_count'' =
       Some (case form_field (Some example_yaml) ''mana_base'' ''land_count'' of
               None \<Rightarrow> JNum 24 | Some v \<Rightarrow> v)"
    by blast
  with t o f show ?thesis by simp
qed

section \<open>Properties of the deck file\<close>

lemma saved_decklist:
  "get_prop (Some (saved_record st)) ''decklist'' = Some (JArr (localDeck st))"
  by (simp add: saved_record_def json_property_def)

lemma saved_arena: "get_prop (Some (saved_record st)) ''arena'' = localArena st"
  by (simp add: saved_record_def json_property_def split: option.splits)

lemma saved_analysis: "get_prop (Some (saved_record st)) ''analysis'' = localAnalysis st"
  by (simp add: saved_record_def json_property_def split: option.splits)

lemma saved_keys:
  "set (map fst (own_entries (Some (saved_record st))))
     \<subseteq> {''decklist'', ''arena'', ''analysis''}"
  by (auto simp add: saved_record_def json_property_def split: option.splits)

lemma load_saved:
  assumes "path \<noteq> []"
  shows "loadDeck path (Parsed (saved_record st)) st' =
     st'\<lparr>localDeck := localDeck st, localArena := localArena st,
         localAnalysis := localAnalysis st, status := ''Loaded '' @ path\<rparr>"
proof -
  obtain kvs where k: "saved_record st = JObj kvs" by (simp add: saved_record_def)
  show ?thesis
    using assms saved_decklist[of st] saved_arena[of st] saved_analysis[of st]
    unfolding k by (simp add: loadDeck_def Let_def or_default_def)
qed

text \<open>
  C8. The document written by \<open>saveDeck\<close> has the properties \<open>decklist\<close>, \<open>arena\<close> and
  \<open>analysis\<close> of the viewer and no other (a property that is \<open>undefined\<close> is left out, as
  \<open>JSON.stringify\<close> does); \<open>loadDeck\<close> of that document, into any viewer state, restores
  the same deck rows, arena and analysis.
\<close>

theorem save_load_roundtrip:
  assumes "saveDeck path res_ok st = (Some (file, doc), st1)"
  shows "get_prop (Some doc) ''decklist'' = Some (JArr (localDeck st))
     \<and> get_prop (Some doc) ''arena'' = localArena st
     \<and> get_prop (Some doc) ''analysis'' = localAnalysis st
     \<and> set (map fst (own_entries (Some doc))) \<subseteq> {''decklist'', ''arena'', ''analysis''}
     \<and> loadDeck file (Parsed doc) st' =
         st'\<lparr>localDeck := localDeck st, localArena := localArena st,
             localAnalysis := localAnalysis st, status := ''Loaded '' @ file\<rparr>"
proof -
  from assms have p: "file \<noteq> []" and d: "doc = saved_record st"
    by (auto simp: saveDeck_def split: if_splits)
  show ?thesis
    unfolding d using saved_decklist saved_arena saved_analysis saved_keys load_saved[OF p]
    by blast
qed

theorem save_load_roundtrip_witness:
  "fst (saveDeck ''my-deck.json'' True example_viewer)
     = Some (''my-deck.json'', saved_record example_viewer)
   \<and> localDeck (loadDeck ''my-deck.json'' (Parsed (saved_record example_viewer)) blank_viewer)
       = localDeck example_viewer
   \<and> localArena (loadDeck ''my-deck.json'' (Parsed (saved_record example_viewer)) blank_viewer)
       = Some (JStr ''4 Shock'')
   \<and> localAnalysis (loadDeck ''my-deck.json'' (Parsed (saved_record example_viewer)) blank_viewer)
       = None"
proof -
  have s: "saveDeck ''my-deck.json'' True example_viewer =
      (Some (''my-deck.json'', saved_record example_viewer),
       example_viewer\<lparr>selected_file := ''my-deck.json'', status := ''Saved my-deck.json''\<rparr>)"
    by (simp add: saveDeck_def)
  have a: "localArena example_viewer = Some (JStr ''4 Shock'')"
    and b: "localAnalysis example_viewer = None"
    by (simp_all add: example_viewer_def)
  show ?thesis
    using save_load_roundtrip[OF s, of blank_viewer] s a b by simp
qed

section \<open>Properties of the deck-construction pipeline\<close>

subsection \<open>Copy-limit bookkeeping\<close>

lemma qty_where_add_row:
  "qty_where P (add_row r d) = qty_where P d + (if P (card r) then card_qty r else 0)"
  by (induction d) (auto simp: qty_where_def)

lemma copies_of_add_row:
  "copies_of n (add_row r d) = copies_of n d + (if card_name (card r) = n then card_qty r else 0)"
  by (simp add: copies_of_def qty_where_add_row)

lemma nonbasic_le_copies: "nonbasic_copies n d \<le> copies_of n d"
  unfolding nonbasic_copies_def copies_of_def qty_where_def
  by (induction d) auto

lemma allowance_le: "allowance cfg d c want \<le> want"
  by (auto simp: allowance_def Let_def)

lemma allowance_nonbasic:
  "\<not> is_basic_land c \<Longrightarrow> allowance cfg d c want \<le> max_card_copies (deck cfg) - copies_of (card_name c) d"
  by (auto simp: allowance_def Let_def)

lemma extends_refl: "extends d d" by (simp add: extends_def)
lemma extends_trans: "extends a b \<Longrightarrow> extends b c \<Longrightarrow> extends a c"
  by (meson extends_def le_trans)

lemma extends_add_row: "extends d (add_row r d)"
  by (simp add: extends_def copies_of_add_row)

lemma add_copies_fst: "fst (add_copies cfg c want why d) = allowance cfg d c want"
  by (simp add: add_copies_def Let_def)

lemma add_copies_qty:
  "qty_where P (snd (add_copies cfg c want why d))
     = qty_where P d + (if P c then allowance cfg d c want else 0)"
  by (simp add: add_copies_def Let_def qty_where_add_row)

lemma add_copies_cap:
  assumes "within_cap cfg d"
  shows "within_cap cfg (snd (add_copies cfg c want why d))"
  unfolding within_cap_def
proof
  fix n
  let ?g = "allowance cfg d c want"
  have q: "nonbasic_copies n (snd (add_copies cfg c want why d))
      = nonbasic_copies n d + (if card_name c = n \<and> \<not> is_basic_land c then ?g else 0)"
    by (simp add: nonbasic_copies_def add_copies_qty)
  have inv: "nonbasic_copies n d \<le> max_card_copies (deck cfg)"
    using assms by (simp add: within_cap_def)
  show "nonbasic_copies n (snd (add_copies cfg c want why d)) \<le> max_card_copies (deck cfg)"
  proof (cases "card_name c = n \<and> \<not> is_basic_land c")
    case True
    then have "?g \<le> max_card_copies (deck cfg) - copies_of n d"
      using allowance_nonbasic[of c cfg d want] by simp
    with nonbasic_le_copies[of n d] inv show ?thesis unfolding q using True by simp
  next
    case False
    then show ?thesis unfolding q using inv by auto
  qed
qed

lemma add_copies_extends: "extends d (snd (add_copies cfg c want why d))"
  by (simp add: extends_def copies_of_def add_copies_qty)

lemma take_ranked_props:
  "fst (take_ranked cfg why per cs slots d) \<le> slots
   \<and> (within_cap cfg d \<longrightarrow> within_cap cfg (snd (take_ranked cfg why per cs slots d)))
   \<and> extends d (snd (take_ranked cfg why per cs slots d))
   \<and> qty_where P (snd (take_ranked cfg why per cs slots d))
        \<le> qty_where P d + fst (take_ranked cfg why per cs slots d)
   \<and> deck_total (snd (take_ranked cfg why per cs slots d))
        = deck_total d + fst (take_ranked cfg why per cs slots d)"
proof (induction cs arbitrary: slots d)
  case Nil
  then show ?case by (simp add: extends_refl)
next
  case (Cons c cs)
  show ?case
  proof (cases "slots = 0")
    case True
    then show ?thesis by (simp add: extends_refl)
  next
    case False
    let ?a = "add_copies cfg c (min per slots) (reasons_for cfg why c) d"
    let ?g = "fst ?a" let ?d1 = "snd ?a"
    let ?r = "take_ranked cfg why per cs (slots - ?g) ?d1"
    have step: "take_ranked cfg why per (c # cs) slots d = (?g + fst ?r, snd ?r)"
      using False by (simp add: case_prod_beta)
    have g: "?g \<le> slots" using allowance_le[of cfg d c "min per slots"] by (simp add: add_copies_fst)
    note IH = Cons.IH[of "slots - ?g" ?d1]
    have 1: "?g + fst ?r \<le> slots" using IH g by linarith
    have 2: "within_cap cfg d \<longrightarrow> within_cap cfg (snd ?r)"
      using IH add_copies_cap[of cfg d c "min per slots" "reasons_for cfg why c"] by blast
    have 3: "extends d (snd ?r)"
      using IH add_copies_extends[of d cfg c "min per slots" "reasons_for cfg why c"]
      by (blast intro: extends_trans)
    have "qty_where P ?d1 \<le> qty_where P d + ?g"
      by (simp add: add_copies_qty add_copies_fst)
    then have 4: "qty_where P (snd ?r) \<le> qty_where P d + (?g + fst ?r)" using IH by linarith
    have "deck_total ?d1 = deck_total d + ?g"
      by (simp add: deck_total_def add_copies_qty add_copies_fst)
    then have 5: "deck_total (snd ?r) = deck_total d + (?g + fst ?r)" using IH by linarith
    show ?thesis unfolding step using 1 2 3 4 5 by simp
  qed
qed

subsection \<open>What every stage keeps\<close>

lemma deck_cards_log [simp]:
  "deck_cards (log_operation s st) = deck_cards st"
  "deck_cards (log_unmet u st) = deck_cards st"
  by (simp_all add: log_operation_def log_unmet_def)

lemma unmet_log [simp]:
  "unmet_conditions (trace (log_operation s st)) = unmet_conditions (trace st)"
  "unmet_conditions (trace (log_unmet u st)) = unmet_conditions (trace st) @ [u]"
  by (simp_all add: log_operation_def log_unmet_def)

lemma keeps_refl: "keeps cfg st st"
  by (simp add: keeps_def extends_refl)

lemma keeps_trans: "keeps cfg a b \<Longrightarrow> keeps cfg b c \<Longrightarrow> keeps cfg a c"
  unfolding keeps_def by (blast intro: extends_trans)

lemma keeps_log_operation: "keeps cfg st (log_operation s st)"
  by (simp add: keeps_def extends_refl)

lemma keeps_log_unmet: "keeps cfg st (log_unmet u st)"
  by (auto simp add: keeps_def extends_refl)

lemma keeps_then_op [simp]: "keeps cfg a (log_operation s b) = keeps cfg a b"
  by (simp add: keeps_def)

lemma keeps_then_unmet: "keeps cfg a b \<Longrightarrow> keeps cfg a (log_unmet u b)"
  by (blast intro: keeps_trans keeps_log_unmet)

lemma keeps_deck:
  assumes "within_cap cfg (deck_cards st) \<longrightarrow> within_cap cfg d" and "extends (deck_cards st) d"
  shows "keeps cfg st (st\<lparr>deck_cards := d\<rparr>)"
  using assms by (simp add: keeps_def)

lemma keeps_inject_one: "keeps cfg st (inject_one cfg pool p st)"
proof (cases "findByName pool (priority_name p)")
  case None
  then show ?thesis
    by (auto simp add: inject_one_def keeps_refl intro!: keeps_then_unmet)
next
  case (Some c)
  show ?thesis
  proof (cases "legal cfg c \<and> color_compatible cfg c")
    case False
    then show ?thesis using Some
      by (auto simp add: inject_one_def intro!: keeps_refl keeps_then_unmet)
  next
    case True
    let ?a = "add_copies cfg c (min_copies p) [''priority''] (deck_cards st)"
    have k: "keeps cfg st (st\<lparr>deck_cards := snd ?a\<rparr>)"
      by (rule keeps_deck) (simp_all add: add_copies_cap add_copies_extends)
    show ?thesis using Some True k
      by (auto simp add: inject_one_def case_prod_beta Let_def
               intro!: keeps_then_unmet)
  qed
qed

lemma keeps_inject_priority: "keeps cfg st (inject_priority cfg pool ps st)"
proof (induction ps arbitrary: st)
  case Nil
  then show ?case by (simp add: keeps_refl)
next
  case (Cons p ps)
  show ?case
    using keeps_inject_one[of cfg st pool p] Cons.IH
    by (simp only: inject_priority.simps) (blast intro: keeps_trans)
qed

lemma keeps_select_category: "keeps cfg st (select_category cfg pool cat tgt st)"
proof -
  let ?order = "ranked (\<lambda>c. score c (scoring_rules cfg) + category_bonus cat c)
       (filter (\<lambda>c. 0 < allowance cfg (deck_cards st) c 1) (filterCards cfg pool))"
  let ?r = "take_ranked cfg (key cat) 1 ?order tgt (deck_cards st)"
  let ?st0 = "st\<lparr>deck_cards := snd ?r,
        trace := (trace st)\<lparr>category_summary := category_summary (trace st) @
           [(key cat, \<lparr>summary_target = tgt, summary_added = fst ?r,
                        summary_remaining = tgt - fst ?r\<rparr>)]\<rparr>\<rparr>"
  have "keeps cfg st ?st0"
    using take_ranked_props[of cfg "key cat" 1 ?order tgt "deck_cards st"]
    by (simp add: keeps_def)
  then show ?thesis
    by (auto simp add: select_category_def Let_def case_prod_beta
             intro!: keeps_then_unmet)
qed

lemma keeps_select_categories: "keeps cfg st (select_categories cfg pool cts st)"
proof (induction cts arbitrary: st)
  case Nil
  then show ?case by (simp add: keeps_refl)
next
  case (Cons ct cts)
  obtain cat tgt where ct: "ct = (cat, tgt)" by (cases ct)
  show ?case unfolding ct
    using keeps_select_category[of cfg st pool cat tgt] Cons.IH
    by (simp only: select_categories.simps) (blast intro: keeps_trans)
qed

lemma keeps_select_all: "keeps cfg st (select_all cfg pool st)"
  unfolding select_all_def
  by (auto intro: keeps_select_categories keeps_trans[OF keeps_log_operation keeps_select_categories])

lemma basic_land_is_basic [simp]: "is_basic_land (basic_land col)"
  by (simp add: is_basic_land_def is_land_def basic_land_def)

lemma name_basic_land [simp]: "card_name (basic_land col) = basic_land_name col"
  by (simp add: basic_land_def)

lemma add_basics_props:
  "(within_cap cfg d \<longrightarrow> within_cap cfg (add_basics bs d))
   \<and> extends d (add_basics bs d)
   \<and> deck_total (add_basics bs d) = deck_total d + sum_list (map snd bs)
   \<and> (\<forall>(col, n) \<in> set bs. n \<le> copies_of (basic_land_name col) (add_basics bs d))"
proof (induction bs arbitrary: d)
  case Nil
  then show ?case by (simp add: extends_refl)
next
  case (Cons b bs)
  obtain col n where b: "b = (col, n)" by (cases b)
  let ?d1 = "if n = 0 then d
        else add_row \<lparr>card = basic_land col, card_qty = n, reasons = [''basic land''],
                       card_score = 0\<rparr> d"
  have step: "add_basics (b # bs) d = add_basics bs ?d1" by (simp add: b)
  have e: "extends d ?d1" by (simp add: extends_refl extends_add_row)
  have c: "within_cap cfg d \<longrightarrow> within_cap cfg ?d1"
    by (simp add: within_cap_def nonbasic_copies_def qty_where_add_row)
  have t: "deck_total ?d1 = deck_total d + n"
    by (simp add: deck_total_def qty_where_add_row)
  have n: "n \<le> copies_of (basic_land_name col) ?d1"
    by (simp add: copies_of_add_row)
  note IH = Cons.IH[of ?d1]
  have 1: "within_cap cfg d \<longrightarrow> within_cap cfg (add_basics bs ?d1)" using IH c by blast
  have 2: "extends d (add_basics bs ?d1)" using IH e by (blast intro: extends_trans)
  have 3: "deck_total (add_basics bs ?d1) = deck_total d + sum_list (map snd (b # bs))"
    using IH t by (simp add: b)
  have "n \<le> copies_of (basic_land_name col) (add_basics bs ?d1)"
    using IH n unfolding extends_def by (meson le_trans)
  then have 4: "\<forall>(col, n) \<in> set (b # bs). n \<le> copies_of (basic_land_name col) (add_basics bs ?d1)"
    using IH by (simp add: b)
  show ?case unfolding step using 1 2 3 4 by blast
qed

lemma keeps_build_mana_base: "keeps cfg st (build_mana_base symbols cfg pool st)"
proof -
  let ?s = "select_special cfg pool (deck_cards st)"
  let ?bs = "basic_lands symbols cfg (deck_cards st) (fst ?s)"
  have s: "(within_cap cfg (deck_cards st) \<longrightarrow> within_cap cfg (snd ?s))
      \<and> extends (deck_cards st) (snd ?s)"
    unfolding select_special_def
    using take_ranked_props[of cfg "''special land''" 1 "special_candidates cfg pool"
        "min (special_lands_count (mana_base cfg)) (land_count (mana_base cfg))" "deck_cards st"]
    by blast
  have "keeps cfg st (st\<lparr>deck_cards := add_basics ?bs (snd ?s)\<rparr>)"
    using s add_basics_props[of cfg "snd ?s" ?bs]
    by (intro keeps_deck) (blast intro: extends_trans)+
  then show ?thesis
    by (auto simp add: build_mana_base_def Let_def case_prod_beta
             intro!: keeps_then_unmet)
qed

lemma fill_categories_props:
  "(within_cap cfg d \<longrightarrow> within_cap cfg (fill_categories cfg pool ks d))
   \<and> extends d (fill_categories cfg pool ks d)"
proof (induction ks arbitrary: d)
  case Nil
  then show ?case by (simp add: extends_refl)
next
  case (Cons k ks)
  show ?case
  proof (cases "find (\<lambda>cat. key cat = k) (categories cfg)")
    case None
    then show ?thesis using Cons.IH[of d] by simp
  next
    case (Some cat)
    let ?d1 = "snd (take_ranked cfg ''fallback'' 1
                    (ranked (\<lambda>c. score c (scoring_rules cfg) + category_bonus cat c)
                       (spell_candidates cfg pool))
                    (gap cfg d) d)"
    have step: "fill_categories cfg pool (k # ks) d = fill_categories cfg pool ks ?d1"
      using Some by simp
    have "(within_cap cfg d \<longrightarrow> within_cap cfg ?d1) \<and> extends d ?d1"
      using take_ranked_props[of cfg "''fallback''" 1 _ "gap cfg d" d] by blast
    then show ?thesis unfolding step using Cons.IH[of ?d1] by (blast intro: extends_trans)
  qed
qed

lemma fill_any_props:
  "(within_cap cfg d \<longrightarrow> within_cap cfg (fill_any cfg pool d)) \<and> extends d (fill_any cfg pool d)"
  unfolding fill_any_def
  using take_ranked_props[of cfg "''fallback''" "gap cfg d" _ "gap cfg d" d] by blast

lemma keeps_fallback_fill: "keeps cfg st (fallback_fill cfg pool st)"
proof -
  let ?d1 = "if fill_with_any (fallback_strategy cfg)
             then fill_any cfg pool (fill_categories cfg pool (fill_order cfg) (deck_cards st))
             else deck_cards st"
  have "(within_cap cfg (deck_cards st) \<longrightarrow> within_cap cfg ?d1) \<and> extends (deck_cards st) ?d1"
    using fill_categories_props[of cfg "deck_cards st" pool "fill_order cfg"]
      fill_any_props[of cfg "fill_categories cfg pool (fill_order cfg) (deck_cards st)" pool]
    by (auto intro: extends_trans extends_refl)
  then have "keeps cfg st (st\<lparr>deck_cards := ?d1\<rparr>)" by (intro keeps_deck) blast+
  then show ?thesis
    by (auto simp add: fallback_fill_def Let_def
             intro!: keeps_refl keeps_then_unmet)
qed

lemma keeps_run_pipeline_from_spells:
  "keeps cfg (select_spells cfg pool) (run_pipeline symbols cfg pool)"
  unfolding run_pipeline_def
  by (blast intro: keeps_trans keeps_build_mana_base keeps_fallback_fill)

lemma within_cap_initial: "within_cap cfg (deck_cards initial_state)"
  by (simp add: within_cap_def initial_state_def nonbasic_copies_def qty_where_def)

lemma keeps_select_spells: "keeps cfg initial_state (select_spells cfg pool)"
  unfolding select_spells_def
  by (blast intro: keeps_trans keeps_inject_priority keeps_select_all)

lemma within_cap_run: "within_cap cfg (deck_cards (run_pipeline symbols cfg pool))"
  using keeps_select_spells[of cfg pool] keeps_run_pipeline_from_spells[of cfg pool symbols]
    within_cap_initial[of cfg]
  unfolding keeps_def by blast

subsection \<open>Apportioning the basic lands\<close>

lemma length_give [simp]: "length (give r xs) = length xs"
  by (induction r xs rule: give.induct) auto




lemma length_base_shares [simp]: "length (base_shares adjust pips slots) = length pips"
  by (simp add: base_shares_def)


lemma length_apportion [simp]: "length (apportion adjust pips slots) = length pips"
  by (simp add: apportion_def Let_def)


lemma apportion_Nil [simp]: "apportion adjust [] slots = []"
  by (simp add: apportion_def base_shares_def)






lemma deck_cards_build_mana_base:
  "deck_cards (build_mana_base symbols cfg pool st) =
     add_basics (basic_lands symbols cfg (deck_cards st) (fst (select_special cfg pool (deck_cards st))))
       (snd (select_special cfg pool (deck_cards st)))"
  by (simp add: build_mana_base_def Let_def case_prod_beta)

lemma unmet_build_mana_base:
  "unmet_conditions (trace (build_mana_base symbols cfg pool st)) =
     unmet_conditions (trace st) @
       (let lands = fst (select_special cfg pool (deck_cards st))
              + sum_list (map snd (basic_lands symbols cfg (deck_cards st)
                     (fst (select_special cfg pool (deck_cards st)))))
        in if lands < land_count (mana_base cfg)
           then [ManaBaseShortfall (land_count (mana_base cfg)) lands] else [])"
  by (simp add: build_mana_base_def Let_def case_prod_beta)





subsection \<open>Priority cards\<close>

lemma findByName_name: "findByName pool n = Some c \<Longrightarrow> card_name c = n"
  by (auto simp: findByName_def find_Some_iff)

lemma bound_le_achievable: "priority_bound cfg p c \<le> achievable cfg p c"
  by (auto simp: priority_bound_def achievable_def allowance_def Let_def copies_of_def qty_where_def)

lemma achievable_nonbasic:
  "\<not> is_basic_land c \<Longrightarrow> achievable cfg p c = priority_bound cfg p c"
  by (auto simp: priority_bound_def achievable_def allowance_def Let_def copies_of_def qty_where_def)

lemma allowance_le_achievable: "allowance cfg d c (min_copies p) \<le> achievable cfg p c"
  by (auto simp: achievable_def allowance_def Let_def copies_of_def qty_where_def)

lemma achievable_reached:
  "achievable cfg p c \<le> copies_of (card_name c) d + allowance cfg d c (min_copies p)"
  by (auto simp: achievable_def allowance_def Let_def copies_of_def qty_where_def)

lemma allowance_empty:
  "allowance cfg [] c w =
     (let a = (if is_basic_land c then w else min w (max_card_copies (deck cfg)))
      in if owned_cards_only (deck cfg) then min a (owned_qty c) else a)"
  by (simp add: allowance_def copies_of_def qty_where_def Let_def)

lemma allowance_topup:
  assumes "allowance cfg [] c (copies_of (card_name c) d) = copies_of (card_name c) d"
  shows "copies_of (card_name c) d + allowance cfg d c w
           = allowance cfg [] c (copies_of (card_name c) d + w)"
  using assms unfolding allowance_empty unfolding allowance_def Let_def
  by (auto simp: min_def split: if_splits)

lemma allowance_idem: "allowance cfg [] c (allowance cfg [] c x) = allowance cfg [] c x"
  unfolding allowance_empty Let_def by (auto simp: min_def)

lemma allowance_short:
  "allowance cfg [] c w < w \<Longrightarrow> allowance cfg [] c (h + w) = allowance cfg [] c w"
  unfolding allowance_empty Let_def by (auto simp: min_def split: if_splits)

lemma injected_keeps: "injected cfg p c st \<Longrightarrow> keeps cfg st st' \<Longrightarrow> injected cfg p c st'"
  unfolding injected_def keeps_def extends_def
  by (meson le_trans subsetD)

lemma within_limits_initial: "within_limits cfg pool (deck_cards initial_state)"
  by (simp add: within_limits_def initial_state_def allowance_empty copies_of_def qty_where_def)

lemma copies_after_priority:
  assumes f: "findByName pool (priority_name p) = Some c"
    and J: "within_limits cfg pool d"
  shows "copies_of (priority_name p) (snd (add_copies cfg c (min_copies p) why d))
           = allowance cfg [] c (copies_of (priority_name p) d + min_copies p)"
proof -
  have n: "card_name c = priority_name p" using f by (rule findByName_name)
  have "allowance cfg [] c (copies_of (card_name c) d) = copies_of (card_name c) d"
    using J f unfolding within_limits_def n by blast
  then have "copies_of (card_name c) d + allowance cfg d c (min_copies p)
      = allowance cfg [] c (copies_of (card_name c) d + min_copies p)"
    by (rule allowance_topup)
  then show ?thesis by (simp add: copies_of_def add_copies_qty n)
qed

lemma deck_cards_inject_one:
  "deck_cards (inject_one cfg pool p st) =
     (case findByName pool (priority_name p) of
        None \<Rightarrow> deck_cards st
      | Some c \<Rightarrow>
          if legal cfg c \<and> color_compatible cfg c
          then snd (add_copies cfg c (min_copies p) [''priority''] (deck_cards st))
          else deck_cards st)"
  by (simp add: inject_one_def case_prod_beta Let_def split: option.splits)

lemma within_limits_inject_one:
  assumes J: "within_limits cfg pool (deck_cards st)"
  shows "within_limits cfg pool (deck_cards (inject_one cfg pool p st))"
proof (cases "findByName pool (priority_name p)")
  case None
  then show ?thesis using J by (simp add: deck_cards_inject_one)
next
  case (Some c)
  show ?thesis
  proof (cases "legal cfg c \<and> color_compatible cfg c")
    case False
    then show ?thesis using J Some by (auto simp: deck_cards_inject_one)
  next
    case True
    let ?d = "snd (add_copies cfg c (min_copies p) [''priority''] (deck_cards st))"
    have d: "deck_cards (inject_one cfg pool p st) = ?d"
      using Some True by (simp add: deck_cards_inject_one)
    have n: "card_name c = priority_name p" using Some by (rule findByName_name)
    show ?thesis unfolding d within_limits_def
    proof (intro allI impI)
      fix m c'
      assume f': "findByName pool m = Some c'"
      show "allowance cfg [] c' (copies_of m ?d) = copies_of m ?d"
      proof (cases "m = priority_name p")
        case True
        then have c': "c' = c" using f' Some by simp
        show ?thesis unfolding True c' copies_after_priority[OF Some J]
          by (rule allowance_idem)
      next
        case False
        then have "copies_of m ?d = copies_of m (deck_cards st)"
          by (simp add: copies_of_def add_copies_qty n)
        then show ?thesis using J f' unfolding within_limits_def by simp
      qed
    qed
  qed
qed

lemma inject_one_injected:
  assumes f: "findByName pool (priority_name p) = Some c"
    and l: "legal cfg c" "color_compatible cfg c"
    and J: "within_limits cfg pool (deck_cards st)"
  shows "injected cfg p c (inject_one cfg pool p st)"
proof -
  let ?a = "add_copies cfg c (min_copies p) [''priority''] (deck_cards st)"
  let ?h = "copies_of (priority_name p) (deck_cards st)"
  let ?after = "copies_of (priority_name p) (snd ?a)"
  have after: "?after = allowance cfg [] c (?h + min_copies p)"
    using f J by (rule copies_after_priority)
  have d: "deck_cards (inject_one cfg pool p st) = snd ?a"
    using f l by (simp add: deck_cards_inject_one)
  have u: "?after < min_copies p \<Longrightarrow>
      PriorityUnmet (priority_name p) (min_copies p) ?after
        \<in> set (unmet_conditions (trace (inject_one cfg pool p st)))"
    using f l by (simp add: inject_one_def case_prod_beta Let_def)
  have "allowance cfg [] c (min_copies p) \<le> allowance cfg [] c (?h + min_copies p)"
    unfolding allowance_empty Let_def by (auto simp: min_def)
  then have 1: "achievable cfg p c \<le> copies_of (priority_name p) (deck_cards (inject_one cfg pool p st))"
    by (simp add: d after achievable_def)
  have 2: "achievable cfg p c < min_copies p \<longrightarrow>
           PriorityUnmet (priority_name p) (min_copies p) (achievable cfg p c)
             \<in> set (unmet_conditions (trace (inject_one cfg pool p st)))"
  proof
    assume short: "achievable cfg p c < min_copies p"
    then have "?after = achievable cfg p c"
      unfolding after achievable_def by (rule allowance_short)
    with u short show "PriorityUnmet (priority_name p) (min_copies p) (achievable cfg p c)
             \<in> set (unmet_conditions (trace (inject_one cfg pool p st)))" by simp
  qed
  show ?thesis unfolding injected_def using 1 2 by blast
qed

lemma inject_priority_injected:
  assumes "p \<in> set ps" and "findByName pool (priority_name p) = Some c"
    and "legal cfg c" and "color_compatible cfg c"
    and "within_limits cfg pool (deck_cards st)"
  shows "injected cfg p c (inject_priority cfg pool ps st)"
  using assms(1,5)
proof (induction ps arbitrary: st)
  case Nil
  then show ?case by simp
next
  case (Cons q ps)
  show ?case
  proof (cases "p \<in> set ps")
    case True
    have "within_limits cfg pool (deck_cards (inject_one cfg pool q st))"
      using Cons.prems(2) by (rule within_limits_inject_one)
    with True show ?thesis using Cons.IH[of "inject_one cfg pool q st"] by simp
  next
    case False
    then have q: "q = p" using Cons.prems by simp
    have "injected cfg p c (inject_one cfg pool p st)"
      using assms(2-4) Cons.prems(2) by (rule inject_one_injected)
    then show ?thesis unfolding q
      using keeps_inject_priority[of cfg "inject_one cfg pool p st" pool ps]
      by (simp only: inject_priority.simps) (rule injected_keeps)
  qed
qed

lemma run_pipeline_injected:
  assumes "p \<in> set (priority_cards cfg)" and "findByName pool (priority_name p) = Some c"
    and "legal cfg c" and "color_compatible cfg c"
  shows "injected cfg p c (run_pipeline symbols cfg pool)"
proof -
  have "injected cfg p c (inject_priority cfg pool (priority_cards cfg) initial_state)"
    using assms within_limits_initial by (rule inject_priority_injected)
  then have "injected cfg p c (select_spells cfg pool)"
    unfolding select_spells_def using keeps_select_all by (rule injected_keeps)
  then show ?thesis using keeps_run_pipeline_from_spells by (rule injected_keeps)
qed

lemma build_cases:
  "build symbols cfg debug pool =
     (if \<not> allow_less_than_target (fallback_strategy cfg)
        \<and> deck_total (deck_cards (run_pipeline symbols cfg pool)) < deck_size (deck cfg)
      then BuildFailure (trace (run_pipeline symbols cfg pool))
      else Built \<lparr>decklist = deck_cards (run_pipeline symbols cfg pool),
             build_log = (if debug then Some (operations (trace (run_pipeline symbols cfg pool))) else None),
             build_context = (if debug then Some (trace (run_pipeline symbols cfg pool)) else None)\<rparr>)"
  by (simp add: build_def Let_def)

lemma built_decklist:
  "build symbols cfg debug pool = Built out \<Longrightarrow> decklist out = deck_cards (run_pipeline symbols cfg pool)"
  by (auto simp: build_cases split: if_splits)


text \<open>
  C5. For a priority card whose name is found in the pool and whose card is legal and
  colour-compatible: a build fails only by the final size test (\<open>allow_less_than_target\<close>
  false and the deck short of \<open>deck.size\<close>), never because of the priority card. In the
  deck of a completed build the card's quantity is at least the achievable quantity, which
  is at least \<open>min(min_copies, max_card_copies, owned_qty if owned_cards_only)\<close> and equal
  to it unless the card is a basic land. When the achievable quantity is below
  \<open>min_copies\<close>, the unmet conditions hold the \<open>PriorityUnmet\<close> entry of the card with the
  requested count \<open>min_copies\<close> and, as achieved count, exactly the achievable quantity
  (so the shortfall recorded is their difference); they are returned as \<open>build_context\<close>
  when \<open>debug\<close> is set.
\<close>

theorem priority_precedence:
  assumes "p \<in> set (priority_cards cfg)" and "findByName pool (priority_name p) = Some c"
    and "legal cfg c" and "color_compatible cfg c"
  shows "case build symbols cfg debug pool of
           BuildFailure ctx \<Rightarrow>
             \<not> allow_less_than_target (fallback_strategy cfg)
             \<and> deck_total (deck_cards (run_pipeline symbols cfg pool)) < deck_size (deck cfg)
         | Built out \<Rightarrow>
             priority_bound cfg p c \<le> achievable cfg p c
             \<and> (\<not> is_basic_land c \<longrightarrow> achievable cfg p c = priority_bound cfg p c)
             \<and> achievable cfg p c \<le> copies_of (priority_name p) (decklist out)
             \<and> (achievable cfg p c < min_copies p \<longrightarrow>
                  PriorityUnmet (priority_name p) (min_copies p) (achievable cfg p c)
                    \<in> set (unmet_conditions (trace (run_pipeline symbols cfg pool))))
             \<and> build_context out
                 = (if debug then Some (trace (run_pipeline symbols cfg pool)) else None)"
proof -
  have i: "injected cfg p c (run_pipeline symbols cfg pool)"
    using assms by (rule run_pipeline_injected)
  show ?thesis
    using i bound_le_achievable[of cfg p c] achievable_nonbasic[of c cfg p]
    unfolding injected_def
    by (auto simp: build_cases)
qed


theorem priority_precedence_witness:
  "example_priority \<in> set (priority_cards example_config)
   \<and> findByName example_pool (priority_name example_priority) = Some example_card
   \<and> legal example_config example_card
   \<and> color_compatible example_config example_card
   \<and> is_Built (build one_pip example_config True example_pool)
   \<and> copies_of ''Goblin Guide''
        (decklist (built_output (build one_pip example_config True example_pool))) = 1
   \<and> PriorityUnmet ''Goblin Guide'' 4 1
        \<in> set (unmet_conditions
                 (the (build_context (built_output (build one_pip example_config True example_pool)))))"
proof -
  let ?b = "build one_pip example_config True example_pool"
  have h1: "example_priority \<in> set (priority_cards example_config)"
    by (simp add: example_priority_def example_config_def)
  have h2: "findByName example_pool (priority_name example_priority) = Some example_card"
    by code_simp
  have h3: "legal example_config example_card" by code_simp
  have h4: "color_compatible example_config example_card" by code_simp
  have b: "is_Built ?b" by code_simp
  then have o: "?b = Built (built_output ?b)" by simp
  have a: "achievable example_config example_priority example_card = 1" by code_simp
  have q: "copies_of ''Goblin Guide'' (decklist (built_output ?b)) = 1" by code_simp
  have n: "priority_name example_priority = ''Goblin Guide''"
    and k: "min_copies example_priority = 4"
    by (simp_all add: example_priority_def)
  have "case ?b of
           BuildFailure ctx \<Rightarrow>
             \<not> allow_less_than_target (fallback_strategy example_config)
             \<and> deck_total (deck_cards (run_pipeline one_pip example_config example_pool))
                 < deck_size (deck example_config)
         | Built out \<Rightarrow>
             priority_bound example_config example_priority example_card
               \<le> achievable example_config example_priority example_card
             \<and> (\<not> is_basic_land example_card \<longrightarrow>
                  achievable example_config example_priority example_card
                    = priority_bound example_config example_priority example_card)
             \<and> achievable example_config example_priority example_card
                 \<le> copies_of (priority_name example_priority) (decklist out)
             \<and> (achievable example_config example_priority example_card
                   < min_copies example_priority \<longrightarrow>
                  PriorityUnmet (priority_name example_priority)
                    (min_copies example_priority)
                    (achievable example_config example_priority example_card)
                    \<in> set (unmet_conditions
                            (trace (run_pipeline one_pip example_config example_pool))))
             \<and> build_context out
                 = (if True then Some (trace (run_pipeline one_pip example_config example_pool))
                    else None)"
    by (rule priority_precedence[OF h1 h2 h3 h4])
  then have "PriorityUnmet ''Goblin Guide'' 4 1
        \<in> set (unmet_conditions (the (build_context (built_output ?b))))"
    by (subst (asm) o) (simp add: a n k)
  with h1 h2 h3 h4 b q show ?thesis by blast
qed

subsection \<open>The copy cap\<close>

text \<open>
  C1. In the deck of every completed build, the total quantity of every card name over
  the rows that are not basic lands is at most \<open>max_card_copies\<close>, whichever stage added
  the copies (priority injection, category selection, special lands, fallback filling);
  basic lands are exempt: every basic land the Mana Base Builder apportions is in the
  deck in full, whatever the cap.
\<close>

theorem copy_cap:
  assumes "build symbols cfg debug pool = Built out"
  shows "(\<forall>n. nonbasic_copies n (decklist out) \<le> max_card_copies (deck cfg))
    \<and> (\<forall>(col, n) \<in> set (basics_selected symbols cfg pool).
          n \<le> copies_of (basic_land_name col) (decklist out))"
proof -
  have d: "decklist out = deck_cards (run_pipeline symbols cfg pool)"
    using assms by (rule built_decklist)
  have 1: "\<forall>n. nonbasic_copies n (decklist out) \<le> max_card_copies (deck cfg)"
    using within_cap_run[of cfg symbols pool] by (simp add: d within_cap_def)
  let ?st = "select_spells cfg pool"
  let ?m = "build_mana_base symbols cfg pool ?st"
  have m: "\<forall>(col, n) \<in> set (basics_selected symbols cfg pool).
          n \<le> copies_of (basic_land_name col) (deck_cards ?m)"
    using add_basics_props[of cfg "snd (select_special cfg pool (deck_cards ?st))"
        "basics_selected symbols cfg pool"]
    by (simp add: deck_cards_build_mana_base basics_selected_def special_selected_def)
  have "extends (deck_cards ?m) (decklist out)"
    unfolding d run_pipeline_def using keeps_fallback_fill[of cfg ?m pool]
    by (simp add: keeps_def)
  with m have 2: "\<forall>(col, n) \<in> set (basics_selected symbols cfg pool).
          n \<le> copies_of (basic_land_name col) (decklist out)"
    unfolding extends_def by (metis (mono_tags, lifting) case_prodD case_prodI2 le_trans)
  show ?thesis using 1 2 by blast
qed

theorem copy_cap_witness:
  "is_Built (build one_pip example_config False example_pool)
   \<and> (\<forall>n. nonbasic_copies n (decklist (built_output (build one_pip example_config False example_pool)))
          \<le> 4)
   \<and> nonbasic_copies ''Ember Hauler''
        (decklist (built_output (build one_pip example_config False example_pool))) = 4
   \<and> 4 < copies_of ''Mountain''
        (decklist (built_output (build one_pip example_config False example_pool)))"
proof -
  let ?b = "build one_pip example_config False example_pool"
  have b: "is_Built ?b" by code_simp
  then have o: "?b = Built (built_output ?b)" by simp
  have m: "max_card_copies (deck example_config) = 4" by (simp add: example_config_def)
  have e: "nonbasic_copies ''Ember Hauler'' (decklist (built_output ?b)) = 4" by code_simp
  have s: "(R, 5) \<in> set (basics_selected one_pip example_config example_pool)" by code_simp
  from copy_cap[OF o] have
    1: "\<forall>n. nonbasic_copies n (decklist (built_output ?b)) \<le> max_card_copies (deck example_config)"
    and 2: "\<forall>(col, n) \<in> set (basics_selected one_pip example_config example_pool).
          n \<le> copies_of (basic_land_name col) (decklist (built_output ?b))"
    by blast+
  from 2 s have "5 \<le> copies_of (basic_land_name R) (decklist (built_output ?b))" by blast
  then have 3: "4 < copies_of ''Mountain'' (decklist (built_output ?b))" by simp
  show ?thesis using b 1 e 3 unfolding m by blast
qed

end
